theory Spec2Isabelle
  imports Complex_Main
begin

section \<open>Numbers\<close>

text \<open>
  The TypeScript sources compute with the type \<open>number\<close>. A number is modelled as an
  exact real, or one of the three special values the sources produce or compare
  against: \<open>Infinity\<close>, \<open>-Infinity\<close> (the parser writes both into bracket bounds) and
  \<open>NaN\<close> (what a division such as \<open>0 / 0\<close> returns instead of raising). Arithmetic on
  finite values is exact: rounding, overflow and the sign of zero are outside this model.
\<close>

datatype number = Fin real | PInf | NInf | NaN

fun nneg :: "number \<Rightarrow> number" where
  "nneg (Fin a) = Fin (- a)"
| "nneg PInf = NInf"
| "nneg NInf = PInf"
| "nneg NaN = NaN"

fun nadd :: "number \<Rightarrow> number \<Rightarrow> number" where
  "nadd (Fin a) (Fin b) = Fin (a + b)"
| "nadd NaN _ = NaN"
| "nadd _ NaN = NaN"
| "nadd PInf NInf = NaN"
| "nadd NInf PInf = NaN"
| "nadd PInf _ = PInf"
| "nadd _ PInf = PInf"
| "nadd NInf _ = NInf"
| "nadd _ NInf = NInf"

definition nsub :: "number \<Rightarrow> number \<Rightarrow> number" where
  "nsub a b = nadd a (nneg b)"

text \<open>The sign of a number that is not \<open>NaN\<close>: \<open>-1\<close>, \<open>0\<close> or \<open>1\<close>.\<close>

fun nsign :: "number \<Rightarrow> int" where
  "nsign (Fin a) = (if a < 0 then - 1 else if a = 0 then 0 else 1)"
| "nsign PInf = 1"
| "nsign NInf = - 1"
| "nsign NaN = 0"

fun nmul :: "number \<Rightarrow> number \<Rightarrow> number" where
  "nmul (Fin a) (Fin b) = Fin (a * b)"
| "nmul NaN _ = NaN"
| "nmul _ NaN = NaN"
| "nmul a b =
     (if nsign a * nsign b = 0 then NaN else if nsign a * nsign b > 0 then PInf else NInf)"

text \<open>
  Division never raises: a finite nonzero value over zero is an infinity, \<open>0 / 0\<close> and
  \<open>Infinity / Infinity\<close> are \<open>NaN\<close>, a finite value over an infinity is \<open>0\<close>.
\<close>

fun ndiv :: "number \<Rightarrow> number \<Rightarrow> number" where
  "ndiv (Fin a) (Fin b) =
     (if b \<noteq> 0 then Fin (a / b) else if a = 0 then NaN else if a > 0 then PInf else NInf)"
| "ndiv NaN _ = NaN"
| "ndiv _ NaN = NaN"
| "ndiv (Fin a) _ = Fin 0"
| "ndiv PInf (Fin b) = (if b \<ge> 0 then PInf else NInf)"
| "ndiv NInf (Fin b) = (if b \<ge> 0 then NInf else PInf)"
| "ndiv _ _ = NaN"

text \<open>Comparisons: every comparison with \<open>NaN\<close> is false.\<close>

fun nlt :: "number \<Rightarrow> number \<Rightarrow> bool" where
  "nlt (Fin a) (Fin b) = (a < b)"
| "nlt NaN _ = False"
| "nlt _ NaN = False"
| "nlt _ NInf = False"
| "nlt PInf _ = False"
| "nlt NInf _ = True"
| "nlt _ PInf = True"

fun nle :: "number \<Rightarrow> number \<Rightarrow> bool" where
  "nle (Fin a) (Fin b) = (a \<le> b)"
| "nle NaN _ = False"
| "nle _ NaN = False"
| "nle NInf _ = True"
| "nle _ PInf = True"
| "nle _ NInf = False"
| "nle PInf _ = False"

definition ngt :: "number \<Rightarrow> number \<Rightarrow> bool" where
  "ngt a b = nlt b a"

definition nge :: "number \<Rightarrow> number \<Rightarrow> bool" where
  "nge a b = nle b a"

text \<open>Strict equality \<open>===\<close> on numbers: \<open>NaN\<close> equals nothing.\<close>

definition neq :: "number \<Rightarrow> number \<Rightarrow> bool" where
  "neq a b = (a \<noteq> NaN \<and> a = b)"

text \<open>\<open>Math.min\<close>, \<open>Math.max\<close> and \<open>Math.floor\<close>; the first two return \<open>NaN\<close> when
  either argument is \<open>NaN\<close>.\<close>

definition nmin :: "number \<Rightarrow> number \<Rightarrow> number" where
  "nmin a b = (if a = NaN \<or> b = NaN then NaN else if nle a b then a else b)"

definition nmax :: "number \<Rightarrow> number \<Rightarrow> number" where
  "nmax a b = (if a = NaN \<or> b = NaN then NaN else if nle a b then b else a)"

fun nfloor :: "number \<Rightarrow> number" where
  "nfloor (Fin a) = Fin (of_int \<lfloor>a\<rfloor>)"
| "nfloor x = x"

section \<open>Data model (types.ts)\<close>

text \<open>
  Each interface is a record. Several interfaces share field names (\<open>city\<close>, \<open>date\<close>,
  \<open>metric\<close>, ...), so every field carries a short prefix naming its interface:
  \<open>df_\<close> DailyForecast, \<open>ef_\<close> EnsembleForecast, \<open>bp_\<close> BucketProbability.
\<close>

datatype metric = High | Low

datatype bracketType = Above | Below | Between

record DailyForecast =
  df_date :: string
  df_highs :: "number list"
  df_lows :: "number list"

record EnsembleForecast =
  ef_city :: string
  ef_fetchedAt :: number
  ef_daily :: "DailyForecast list"

record BucketProbability =
  bp_city :: string
  bp_date :: string
  bp_metric :: metric
  bp_bracketMin :: number
  bp_bracketMax :: number
  bp_probability :: number
  bp_memberCount :: nat

section \<open>Probability engine (weather/probability.ts)\<close>

definition calcBucketProbability ::
  "DailyForecast \<Rightarrow> metric \<Rightarrow> number \<Rightarrow> number \<Rightarrow> BucketProbability" where
  "calcBucketProbability forecast m bracketMin bracketMax =
     (let temps = (if m = High then df_highs forecast else df_lows forecast);
          total = length temps
      in if total = 0 then
           \<lparr>bp_city = [], bp_date = df_date forecast, bp_metric = m,
            bp_bracketMin = bracketMin, bp_bracketMax = bracketMax,
            bp_probability = Fin 0, bp_memberCount = 0\<rparr>
         else
           (let inBucket = length (filter (\<lambda>t. nge t bracketMin \<and> nlt t bracketMax) temps)
            in \<lparr>bp_city = [], bp_date = df_date forecast, bp_metric = m,
                bp_bracketMin = bracketMin, bp_bracketMax = bracketMax,
                bp_probability = ndiv (Fin (real inBucket)) (Fin (real total)),
                bp_memberCount = inBucket\<rparr>))"

definition calcAboveProbability :: "DailyForecast \<Rightarrow> metric \<Rightarrow> number \<Rightarrow> number" where
  "calcAboveProbability forecast m threshold =
     (let temps = (if m = High then df_highs forecast else df_lows forecast)
      in if length temps = 0 then Fin 0
         else ndiv (Fin (real (length (filter (\<lambda>t. nge t threshold) temps))))
                   (Fin (real (length temps))))"

definition calcBelowProbability :: "DailyForecast \<Rightarrow> metric \<Rightarrow> number \<Rightarrow> number" where
  "calcBelowProbability forecast m threshold =
     (let temps = (if m = High then df_highs forecast else df_lows forecast)
      in if length temps = 0 then Fin 0
         else ndiv (Fin (real (length (filter (\<lambda>t. nlt t threshold) temps))))
                   (Fin (real (length temps))))"

definition getModelProbability ::
  "EnsembleForecast \<Rightarrow> string \<Rightarrow> metric \<Rightarrow> bracketType \<Rightarrow> number \<Rightarrow> number
     \<Rightarrow> number option" where
  "getModelProbability ensemble date m bt bracketMin bracketMax =
     (case find (\<lambda>d. df_date d = date) (ef_daily ensemble) of
        None \<Rightarrow> None
      | Some day \<Rightarrow>
          (case bt of
             Above \<Rightarrow> Some (calcAboveProbability day m bracketMin)
           | Below \<Rightarrow> Some (calcBelowProbability day m bracketMax)
           | Between \<Rightarrow>
               Some (bp_probability (calcBucketProbability day m bracketMin bracketMax))))"

section \<open>Strings and regular expressions\<close>

text \<open>
  A title is a list of code units; the model covers the code units below 256 (one
  \<open>char\<close> each), which hold every character the three patterns and the two lookup
  tables mention, the degree sign \<open>0xB0\<close> included. The character classes below are
  those of the source's regular expressions restricted to that range: \<open>\s\<close> is
  tab, line feed, vertical tab, form feed, carriage return, space and no-break space;
  \<open>\d\<close> is \<open>0-9\<close>; \<open>\w\<close> is \<open>[A-Za-z0-9_]\<close>; the dot excludes the line terminators.
  Under the \<open>i\<close> flag a pattern character and an input character match when they
  have the same canonical (upper-case) form; a code unit of 128 or more never
  canonicalises to an ASCII letter, and the patterns hold no other letters.
  \<open>trim\<close> strips the same characters as \<open>\s\<close>, and \<open>toLowerCase\<close> maps the
  upper-case letters of the range (\<open>A-Z\<close> and \<open>0xC0-0xDE\<close> without \<open>0xD7\<close>).
\<close>

definition isSpace :: "char \<Rightarrow> bool" where
  "isSpace c = (let n = (of_char c :: nat) in (9 \<le> n \<and> n \<le> 13) \<or> n = 32 \<or> n = 160)"

definition isDigit :: "char \<Rightarrow> bool" where
  "isDigit c = (let n = (of_char c :: nat) in 48 \<le> n \<and> n \<le> 57)"

definition isWord :: "char \<Rightarrow> bool" where
  "isWord c = (let n = (of_char c :: nat) in
     (48 \<le> n \<and> n \<le> 57) \<or> (65 \<le> n \<and> n \<le> 90) \<or> n = 95 \<or> (97 \<le> n \<and> n \<le> 122))"

definition isLineTerminator :: "char \<Rightarrow> bool" where
  "isLineTerminator c = (let n = (of_char c :: nat) in n = 10 \<or> n = 13)"

definition canonicalize :: "char \<Rightarrow> char" where
  "canonicalize c = (let n = (of_char c :: nat) in
     if 97 \<le> n \<and> n \<le> 122 then char_of (n - 32) else c)"

definition toLowerCaseChar :: "char \<Rightarrow> char" where
  "toLowerCaseChar c = (let n = (of_char c :: nat) in
     if (65 \<le> n \<and> n \<le> 90) \<or> (192 \<le> n \<and> n \<le> 222 \<and> n \<noteq> 215) then char_of (n + 32) else c)"

definition toLowerCase :: "string \<Rightarrow> string" where
  "toLowerCase s = map toLowerCaseChar s"

definition trim :: "string \<Rightarrow> string" where
  "trim s = rev (dropWhile isSpace (rev (dropWhile isSpace s)))"

text \<open>
  A regular expression is a sequence of items: an atom (a literal character, the dot or
  a class) taken once or under one of the quantifiers \<open>?\<close>, \<open>*\<close>, \<open>+\<close>, \<open>*?\<close>,
  \<open>+?\<close>, and the parentheses of a capturing group. This covers the three patterns of
  the parser, whose quantifiers apply to single atoms and whose groups are not nested.
  \<open>rmatch\<close> matches a sequence at the start of the input by backtracking, in the
  priority order of the source's engine: a greedy quantifier tries the longer match first,
  a lazy one the shorter. Its result is the list of captures \<open>m[1], m[2], ...\<close> of the
  first match found, so that \<open>m ! 0\<close> is the source's \<open>m[1]\<close>. \<open>st\<close> is the input at
  the last opening parenthesis. \<open>rexec\<close> is \<open>String.prototype.match\<close> for a pattern
  without the \<open>g\<close> flag: the match at the leftmost position that has one.
\<close>

datatype atom = Chr char | Dot | Digit | Word | Space

fun accepts :: "atom \<Rightarrow> char \<Rightarrow> bool" where
  "accepts (Chr p) c = (canonicalize p = canonicalize c)"
| "accepts Dot c = (\<not> isLineTerminator c)"
| "accepts Digit c = isDigit c"
| "accepts Word c = isWord c"
| "accepts Space c = isSpace c"

datatype item = One atom | Opt atom | Star atom | Plus atom | StarLazy atom | PlusLazy atom
  | GOpen | GClose

fun rmatch :: "item list \<Rightarrow> string \<Rightarrow> string \<Rightarrow> string list \<Rightarrow> string list option" where
  "rmatch [] s st caps = Some caps"
| "rmatch (One a # r) [] st caps = None"
| "rmatch (One a # r) (c # cs) st caps = (if accepts a c then rmatch r cs st caps else None)"
| "rmatch (Opt a # r) [] st caps = rmatch r [] st caps"
| "rmatch (Opt a # r) (c # cs) st caps =
     (if accepts a c then
        (case rmatch r cs st caps of Some m \<Rightarrow> Some m | None \<Rightarrow> rmatch r (c # cs) st caps)
      else rmatch r (c # cs) st caps)"
| "rmatch (Star a # r) [] st caps = rmatch r [] st caps"
| "rmatch (Star a # r) (c # cs) st caps =
     (if accepts a c then
        (case rmatch (Star a # r) cs st caps of Some m \<Rightarrow> Some m
         | None \<Rightarrow> rmatch r (c # cs) st caps)
      else rmatch r (c # cs) st caps)"
| "rmatch (Plus a # r) [] st caps = None"
| "rmatch (Plus a # r) (c # cs) st caps =
     (if accepts a c then rmatch (Star a # r) cs st caps else None)"
| "rmatch (StarLazy a # r) [] st caps = rmatch r [] st caps"
| "rmatch (StarLazy a # r) (c # cs) st caps =
     (case rmatch r (c # cs) st caps of Some m \<Rightarrow> Some m
      | None \<Rightarrow> if accepts a c then rmatch (StarLazy a # r) cs st caps else None)"
| "rmatch (PlusLazy a # r) [] st caps = None"
| "rmatch (PlusLazy a # r) (c # cs) st caps =
     (if accepts a c then rmatch (StarLazy a # r) cs st caps else None)"
| "rmatch (GOpen # r) s st caps = rmatch r s s caps"
| "rmatch (GClose # r) s st caps = rmatch r s st (caps @ [take (length st - length s) st])"

fun rexec :: "item list \<Rightarrow> string \<Rightarrow> string list option" where
  "rexec re [] = rmatch re [] [] []"
| "rexec re (c # cs) =
     (case rmatch re (c # cs) [] [] of Some m \<Rightarrow> Some m | None \<Rightarrow> rexec re cs)"

definition lit :: "string \<Rightarrow> item list" where
  "lit s = map (\<lambda>c. One (Chr c)) s"

definition degree :: char where "degree = CHR 0xB0"

definition RE_OR_BELOW :: "item list" where
  "RE_OR_BELOW =
     lit ''highest'' @ [Plus Space] @ lit ''temperature'' @ [Plus Space] @ lit ''in'' @
     [Plus Space, GOpen, PlusLazy Dot, GClose, Plus Space] @ lit ''be'' @
     [Plus Space, GOpen, Plus Digit, GClose, Star Space, Opt (Chr degree), Star Space,
      Opt (Chr CHR ''F''), Plus Space] @ lit ''or'' @ [Plus Space] @ lit ''below'' @
     [Plus Space] @ lit ''on'' @
     [Plus Space, GOpen, Plus Word, Plus Space, Plus Digit, GClose]"

definition RE_BETWEEN :: "item list" where
  "RE_BETWEEN =
     lit ''highest'' @ [Plus Space] @ lit ''temperature'' @ [Plus Space] @ lit ''in'' @
     [Plus Space, GOpen, PlusLazy Dot, GClose, Plus Space] @ lit ''be'' @
     [Plus Space] @ lit ''between'' @
     [Plus Space, GOpen, Plus Digit, GClose, Star Space, One (Chr CHR ''-''), Star Space,
      GOpen, Plus Digit, GClose, Star Space, Opt (Chr degree), Star Space,
      Opt (Chr CHR ''F''), Plus Space] @ lit ''on'' @
     [Plus Space, GOpen, Plus Word, Plus Space, Plus Digit, GClose]"

definition RE_OR_HIGHER :: "item list" where
  "RE_OR_HIGHER =
     lit ''highest'' @ [Plus Space] @ lit ''temperature'' @ [Plus Space] @ lit ''in'' @
     [Plus Space, GOpen, PlusLazy Dot, GClose, Plus Space] @ lit ''be'' @
     [Plus Space, GOpen, Plus Digit, GClose, Star Space, Opt (Chr degree), Star Space,
      Opt (Chr CHR ''F''), Plus Space] @ lit ''or'' @ [Plus Space] @ lit ''higher'' @
     [Plus Space] @ lit ''on'' @
     [Plus Space, GOpen, Plus Word, Plus Space, Plus Digit, GClose]"


section \<open>Market title parser (market/parser.ts)\<close>

text \<open>
  Record prefixes: \<open>mt_\<close> MarketToken, \<open>rm_\<close> RawMarket, \<open>pm_\<close> ParsedMarket.
  \<open>parseDate\<close> reads the current year from the clock and, in its template literal,
  the text of the month value it looked up; both come from the host the code runs on,
  which is a parameter of the model (\<open>host\<close>), as it is of \<open>parseMarketTitle\<close>, which
  calls \<open>parseDate\<close>.

  A value read from an object literal by \<open>table[key]\<close> is a string written in the table
  (\<open>Str\<close>) or, when the table has no such key of its own, the property of that name
  that every object inherits from \<open>Object.prototype\<close> (\<open>Inherited\<close>, named by its key:
  a built-in function, and for \<open>__proto__\<close> the prototype object itself). The type
  annotations of the source say \<open>string\<close> for the city of a descriptor; they are erased
  when the code runs, and the field holds whatever \<open>matchCity\<close> returned.
\<close>

datatype jsvalue = Str string | Inherited string

record MarketToken =
  mt_tokenId :: string
  mt_outcome :: string
  mt_price :: number

record RawMarket =
  rm_conditionId :: string
  rm_questionId :: string
  rm_title :: string
  rm_slug :: string
  rm_outcomes :: "string list"
  rm_outcomePrices :: "string list"
  rm_tokens :: "MarketToken list"
  rm_volume :: number
  rm_endDateIso :: string
  rm_active :: bool
  rm_closed :: bool

record ParsedMarket =
  pm_conditionId :: string
  pm_title :: string
  pm_city :: jsvalue
  pm_date :: string
  pm_metric :: metric
  pm_bracketMin :: number
  pm_bracketMax :: number
  pm_bracketType :: bracketType
  pm_yesTokenId :: string
  pm_noTokenId :: string
  pm_yesPrice :: number
  pm_noPrice :: number
  pm_volume :: number
  pm_endDateIso :: string

definition digitValue :: "char \<Rightarrow> nat" where
  "digitValue c = of_char c - 48"

text \<open>
  \<open>Number\<close> is applied to the captures of \<open>(\d+)\<close> only, which are non-empty strings
  of ASCII digits (lemma \<open>firstPattern_digits\<close>); there it is the decimal value. The
  model returns \<open>NaN\<close> for every other string and covers nothing more of \<open>Number\<close>.
\<close>

definition decimal :: "string \<Rightarrow> nat" where
  "decimal s = foldl (\<lambda>n c. 10 * n + digitValue c) 0 s"

definition Number :: "string \<Rightarrow> number" where
  "Number s = (if s \<noteq> [] \<and> list_all isDigit s then Fin (real (decimal s)) else NaN)"

text \<open>
  \<open>MONTHS\<close> and \<open>CITY_ALIASES\<close> (config.ts) are object literals, kept as association
  lists in the order of the source, which is the order \<open>Object.entries\<close> iterates in
  (own keys only). The property read \<open>table[key]\<close> is \<open>objectGet\<close>: the value written
  at the key, else the inherited property when the key is one of the twelve property
  names of \<open>Object.prototype\<close>, else \<open>undefined\<close> (\<open>None\<close>). \<open>truthy\<close> is the truth
  test of the source on such a value: a string passes when it is not empty, a function
  or an object always.
\<close>

definition OBJECT_PROTOTYPE_KEYS :: "string list" where
  "OBJECT_PROTOTYPE_KEYS =
     [''constructor'', ''__defineGetter__'', ''__defineSetter__'', ''hasOwnProperty'',
      ''__lookupGetter__'', ''__lookupSetter__'', ''isPrototypeOf'', ''propertyIsEnumerable'',
      ''toString'', ''valueOf'', ''__proto__'', ''toLocaleString'']"

definition objectGet :: "(string \<times> string) list \<Rightarrow> string \<Rightarrow> jsvalue option" where
  "objectGet table key =
     (case map_of table key of
        Some v \<Rightarrow> Some (Str v)
      | None \<Rightarrow> if key \<in> set OBJECT_PROTOTYPE_KEYS then Some (Inherited key) else None)"

fun truthy :: "jsvalue \<Rightarrow> bool" where
  "truthy (Str s) = (s \<noteq> [])"
| "truthy (Inherited k) = True"

definition MONTHS :: "(string \<times> string) list" where
  "MONTHS =
     [(''january'', ''01''), (''february'', ''02''), (''march'', ''03''), (''april'', ''04''),
      (''may'', ''05''), (''june'', ''06''), (''july'', ''07''), (''august'', ''08''),
      (''september'', ''09''), (''october'', ''10''), (''november'', ''11''),
      (''december'', ''12''),
      (''jan'', ''01''), (''feb'', ''02''), (''mar'', ''03''), (''apr'', ''04''),
      (''jun'', ''06''), (''jul'', ''07''), (''aug'', ''08''), (''sep'', ''09''),
      (''oct'', ''10''), (''nov'', ''11''), (''dec'', ''12'')]"

definition CITY_ALIASES :: "(string \<times> string) list" where
  "CITY_ALIASES =
     [(''new york'', ''nyc''), (''new york city'', ''nyc''), (''nyc'', ''nyc''),
      (''manhattan'', ''nyc''), (''central park'', ''nyc''), (''chicago'', ''chicago''),
      (''o'' @ [CHR 0x27] @ ''hare'', ''chicago''), (''miami'', ''miami''),
      (''atlanta'', ''atlanta''), (''seattle'', ''seattle''), (''dallas'', ''dallas''),
      (''dfw'', ''dallas''), (''fort worth'', ''dallas'')]"

fun str_includes :: "string \<Rightarrow> string \<Rightarrow> bool" where
  "str_includes [] sub = (sub = [])"
| "str_includes (c # cs) sub = (take (length sub) (c # cs) = sub \<or> str_includes cs sub)"

definition matchCity :: "string \<Rightarrow> jsvalue option" where
  "matchCity raw =
     (let normalized = toLowerCase (trim raw);
          direct = objectGet CITY_ALIASES normalized
      in if (case direct of Some v \<Rightarrow> truthy v | None \<Rightarrow> False) then direct
         else
           (case find (\<lambda>(alias, slug). str_includes normalized alias \<or> str_includes alias normalized)
                   CITY_ALIASES of
              Some (alias, slug) \<Rightarrow> Some (Str slug)
            | None \<Rightarrow> None))"

text \<open>
  \<open>split\<close> is \<open>split(/\s+/)\<close>: the pieces between maximal runs of white space, an
  empty piece before a leading and after a trailing run. \<open>toString\<close> is the decimal
  numeral of a natural number (the recursion takes the number itself as fuel, more than
  its number of digits), and \<open>padStart2\<close> is \<open>padStart(2, "0")\<close>.

  \<open>Host\<close> is what \<open>parseDate\<close> takes from the machine it runs on: the current year of
  the clock, and the source text the engine prints for a built-in function, which the
  language leaves to the implementation. \<open>templateText\<close> is the text a template
  literal inserts for a value: a string as it is, the prototype object as
  \<open>[object Object]\<close>, a built-in function as the host prints it.
\<close>

record Host =
  host_year :: nat
  host_functionText :: "string \<Rightarrow> string"

fun templateText :: "Host \<Rightarrow> jsvalue \<Rightarrow> string" where
  "templateText host (Str s) = s"
| "templateText host (Inherited k) =
     (if k = ''__proto__'' then ''[object Object]'' else host_functionText host k)"

fun splitSpaces :: "bool \<Rightarrow> string \<Rightarrow> string \<Rightarrow> string list" where
  "splitSpaces inSep cur [] = [cur]"
| "splitSpaces inSep cur (c # cs) =
     (if isSpace c then
        (if inSep then splitSpaces True cur cs else cur # splitSpaces True [] cs)
      else splitSpaces False (cur @ [c]) cs)"

definition split :: "string \<Rightarrow> string list" where
  "split s = splitSpaces False [] s"

fun digitsOf :: "nat \<Rightarrow> nat \<Rightarrow> string" where
  "digitsOf 0 n = []"
| "digitsOf (Suc fuel) n =
     (if n < 10 then [char_of (48 + n)] else digitsOf fuel (n div 10) @ [char_of (48 + n mod 10)])"

definition toString :: "nat \<Rightarrow> string" where
  "toString n = digitsOf (Suc n) n"

definition padStart2 :: "string \<Rightarrow> string" where
  "padStart2 s = replicate (2 - length s) CHR ''0'' @ s"

definition parseDate :: "Host \<Rightarrow> string \<Rightarrow> string option" where
  "parseDate host raw =
     (let parts = split (trim raw) in
      if length parts < 2 then None
      else
        (let monthStr = toLowerCase (parts ! 0);
             day = filter isDigit (parts ! 1)
         in case objectGet MONTHS monthStr of
              None \<Rightarrow> None
            | Some monthNum \<Rightarrow>
                if \<not> truthy monthNum \<or> day = [] then None
                else Some (toString (host_year host) @ ''-'' @ templateText host monthNum @ ''-''
                             @ padStart2 day)))"

definition buildParsed ::
  "RawMarket \<Rightarrow> jsvalue \<Rightarrow> string \<Rightarrow> metric \<Rightarrow> bracketType \<Rightarrow> number \<Rightarrow> number
     \<Rightarrow> ParsedMarket" where
  "buildParsed raw city date m bt bracketMin bracketMax =
     \<lparr>pm_conditionId = rm_conditionId raw, pm_title = rm_title raw, pm_city = city,
      pm_date = date, pm_metric = m, pm_bracketMin = bracketMin, pm_bracketMax = bracketMax,
      pm_bracketType = bt,
      pm_yesTokenId = (case rm_tokens raw of t0 # _ \<Rightarrow> mt_tokenId t0 | _ \<Rightarrow> []),
      pm_noTokenId = (case rm_tokens raw of _ # t1 # _ \<Rightarrow> mt_tokenId t1 | _ \<Rightarrow> []),
      pm_yesPrice = (case rm_tokens raw of t0 # _ \<Rightarrow> mt_price t0 | _ \<Rightarrow> Fin 0),
      pm_noPrice = (case rm_tokens raw of _ # t1 # _ \<Rightarrow> mt_price t1 | _ \<Rightarrow> Fin 0),
      pm_volume = rm_volume raw, pm_endDateIso = rm_endDateIso raw\<rparr>"

definition parseMarketTitle :: "Host \<Rightarrow> RawMarket \<Rightarrow> ParsedMarket option" where
  "parseMarketTitle host raw =
     (let title = rm_title raw in
      case rexec RE_BETWEEN title of
        Some m \<Rightarrow>
          (case matchCity (m ! 0) of
             None \<Rightarrow> None
           | Some citySlug \<Rightarrow>
               (case parseDate host (m ! 3) of
                  None \<Rightarrow> None
                | Some date \<Rightarrow>
                    Some (buildParsed raw citySlug date High Between
                            (Number (m ! 1)) (nadd (Number (m ! 2)) (Fin 1)))))
      | None \<Rightarrow>
          (case rexec RE_OR_BELOW title of
             Some m \<Rightarrow>
               (case matchCity (m ! 0) of
                  None \<Rightarrow> None
                | Some citySlug \<Rightarrow>
                    (case parseDate host (m ! 2) of
                       None \<Rightarrow> None
                     | Some date \<Rightarrow>
                         Some (buildParsed raw citySlug date High Below
                                 NInf (nadd (Number (m ! 1)) (Fin 1)))))
           | None \<Rightarrow>
               (case rexec RE_OR_HIGHER title of
                  Some m \<Rightarrow>
                    (case matchCity (m ! 0) of
                       None \<Rightarrow> None
                     | Some citySlug \<Rightarrow>
                         (case parseDate host (m ! 2) of
                            None \<Rightarrow> None
                          | Some date \<Rightarrow>
                              Some (buildParsed raw citySlug date High Above
                                      (Number (m ! 1)) PInf)))
                | None \<Rightarrow> None)))"


section \<open>Consensus, edge and sizing (engine/consensus.ts, engine/edge.ts, engine/sizing.ts)\<close>

text \<open>
  Record prefixes: \<open>cr_\<close> ConsensusResult, \<open>er_\<close> EdgeResult, \<open>cfg_\<close> AppConfig (its
  optional API credentials are left out: no function here reads them), \<open>ks_\<close> the
  result of \<open>kellySize\<close>. \<open>nwsInBracket\<close> is the variable of that name in
  \<open>calculateConsensus\<close>: whether the point forecast falls in the bracket, formed only
  when a point forecast is supplied and the metric is high. In \<open>calculateConsensus\<close>,
  \<open>weighted\<close> is the pair of \<open>consensusProb\<close> and \<open>totalWeight\<close> before the division.
\<close>

datatype ConfidenceTier = LOCK | STRONG | SAFE | NEAR_SAFE | SKIP

record ConsensusResult =
  cr_gfsProbability :: number
  cr_ecmwfProbability :: "number option"
  cr_nwsHigh :: "number option"
  cr_consensusProbability :: number
  cr_confidence :: ConfidenceTier
  cr_modelsAgreeing :: nat
  cr_kellyMultiplier :: number

definition nwsInBracket ::
  "number option \<Rightarrow> metric \<Rightarrow> bracketType \<Rightarrow> number \<Rightarrow> number \<Rightarrow> bool option" where
  "nwsInBracket nwsHigh m bt bracketMin bracketMax =
     (case nwsHigh of
        None \<Rightarrow> None
      | Some h \<Rightarrow>
          if m = High then
            (case bt of
               Above \<Rightarrow> Some (nge h bracketMin)
             | Below \<Rightarrow> Some (nlt h bracketMax)
             | Between \<Rightarrow> Some (nge h bracketMin \<and> nlt h bracketMax))
          else None)"

definition calculateConsensus ::
  "EnsembleForecast \<Rightarrow> EnsembleForecast option \<Rightarrow> number option \<Rightarrow> string \<Rightarrow> metric
     \<Rightarrow> bracketType \<Rightarrow> number \<Rightarrow> number \<Rightarrow> ConsensusResult option" where
  "calculateConsensus gfsEnsemble ecmwfEnsemble nwsHigh date m bt bracketMin bracketMax =
     (case getModelProbability gfsEnsemble date m bt bracketMin bracketMax of
        None \<Rightarrow> None
      | Some gfsProb \<Rightarrow>
          (let ecmwfProb =
                 (case ecmwfEnsemble of
                    None \<Rightarrow> None
                  | Some e \<Rightarrow> getModelProbability e date m bt bracketMin bracketMax);
               inBracket = nwsInBracket nwsHigh m bt bracketMin bracketMax;
               probThreshold = Fin 0.5;
               gfsVote = nge gfsProb probThreshold;
               modelsAgreeing =
                 1 + (case ecmwfProb of
                        None \<Rightarrow> 0
                      | Some e \<Rightarrow> if nge e probThreshold = gfsVote then 1 else 0)
                   + (case inBracket of
                        None \<Rightarrow> 0
                      | Some b \<Rightarrow> if b = gfsVote then 1 else (0::nat));
               weighted =
                 (case ecmwfProb of
                    None \<Rightarrow> (nmul gfsProb (Fin 1.0), nadd (Fin 0) (Fin 1.0))
                  | Some e \<Rightarrow>
                      (nadd (nmul gfsProb (Fin 1.0)) (nmul e (Fin 1.2)),
                       nadd (nadd (Fin 0) (Fin 1.0)) (Fin 1.2)));
               consensusProb = ndiv (fst weighted) (snd weighted);
               totalModels =
                 1 + (if ecmwfProb \<noteq> None then 1 else 0)
                   + (if inBracket \<noteq> None then 1 else (0::nat));
               agreementRatio = ndiv (Fin (real modelsAgreeing)) (Fin (real totalModels));
               tier =
                 (if totalModels \<ge> 2 \<and> neq agreementRatio (Fin 1.0) then (LOCK, Fin 1.5)
                  else if totalModels \<ge> 2 \<and> nge agreementRatio (Fin 0.66) then (STRONG, Fin 1.2)
                  else if totalModels = 1 then (SAFE, Fin 1.0)
                  else if nge agreementRatio (Fin 0.5) then (NEAR_SAFE, Fin 0.7)
                  else (SKIP, Fin 0))
           in Some \<lparr>cr_gfsProbability = gfsProb, cr_ecmwfProbability = ecmwfProb,
                    cr_nwsHigh = nwsHigh, cr_consensusProbability = consensusProb,
                    cr_confidence = fst tier, cr_modelsAgreeing = modelsAgreeing,
                    cr_kellyMultiplier = snd tier\<rparr>))"

datatype side = YES | NO

record EdgeResult =
  er_market :: ParsedMarket
  er_modelProbability :: number
  er_marketPrice :: number
  er_edge :: number
  er_side :: side
  er_effectivePrice :: number

definition calculateEdge :: "ParsedMarket \<Rightarrow> EnsembleForecast \<Rightarrow> EdgeResult option" where
  "calculateEdge market ensemble =
     (case getModelProbability ensemble (pm_date market) (pm_metric market)
             (pm_bracketType market) (pm_bracketMin market) (pm_bracketMax market) of
        None \<Rightarrow> None
      | Some modelProb \<Rightarrow>
          (let yesPrice = pm_yesPrice market;
               noPrice = pm_noPrice market;
               yesEdge = nsub modelProb yesPrice;
               noEdge = nsub (nsub (Fin 1) modelProb) noPrice
           in if nge yesEdge noEdge \<and> ngt yesEdge (Fin 0) then
                Some \<lparr>er_market = market, er_modelProbability = modelProb,
                      er_marketPrice = yesPrice, er_edge = yesEdge, er_side = YES,
                      er_effectivePrice = yesPrice\<rparr>
              else if ngt noEdge (Fin 0) then
                Some \<lparr>er_market = market, er_modelProbability = nsub (Fin 1) modelProb,
                      er_marketPrice = noPrice, er_edge = noEdge, er_side = NO,
                      er_effectivePrice = noPrice\<rparr>
              else None))"

datatype mode = Paper | Live

record AppConfig =
  cfg_mode :: mode
  cfg_bankrollUsdc :: number
  cfg_maxPositionPct :: number
  cfg_minEdgePct :: number
  cfg_kellyFraction :: number
  cfg_maxOpenPositions :: number

record KellySizing =
  ks_rawKelly :: number
  ks_adjustedKelly :: number
  ks_size :: number

definition kellySize :: "number \<Rightarrow> number \<Rightarrow> number \<Rightarrow> AppConfig \<Rightarrow> KellySizing" where
  "kellySize modelProbability effectivePrice bankroll config =
     (let p = modelProbability;
          q = nsub (Fin 1) p;
          b = ndiv (nsub (Fin 1) effectivePrice) effectivePrice
      in if nle b (Fin 0) then
           \<lparr>ks_rawKelly = Fin 0, ks_adjustedKelly = Fin 0, ks_size = Fin 0\<rparr>
         else
           (let rawKelly = ndiv (nsub (nmul b p) q) b
            in if nle rawKelly (Fin 0) then
                 \<lparr>ks_rawKelly = rawKelly, ks_adjustedKelly = Fin 0, ks_size = Fin 0\<rparr>
               else
                 (let adjustedKelly = nmul rawKelly (cfg_kellyFraction config);
                      cappedKelly = nmin adjustedKelly (cfg_maxPositionPct config);
                      size = ndiv (nfloor (nmul (nmul cappedKelly bankroll) (Fin 100))) (Fin 100)
                  in \<lparr>ks_rawKelly = rawKelly, ks_adjustedKelly = cappedKelly,
                      ks_size = nmax size (Fin 0)\<rparr>)))"

section \<open>Signal generator (engine/signals.ts)\<close>

text \<open>
  Record prefixes: \<open>sg_\<close> Signal, \<open>pos_\<close> Position (the fields that identify a
  position, its size and its status; \<open>generateSignals\<close> reads the condition id and the
  status), \<open>env_\<close> the environment. \<open>generateSignals\<close> reads three things that are not
  among its arguments, and the model takes them as the record \<open>Env\<close>: the clock
  (\<open>Date.now()\<close>, read once), the conversion of a date string to milliseconds
  (\<open>new Date(s).getTime()\<close>, which is \<open>NaN\<close> for a string that is no date), and the
  source of random UUIDs (\<open>crypto.randomUUID()\<close>, the \<open>k\<close>-th call returning
  \<open>env_randomUUID env k\<close>). The maps of ensembles are \<open>Map\<close>s, which look a key of
  any kind up: partial functions from values. The maps the callers build have city
  identifiers, which are strings, as their keys.
\<close>

record Signal =
  sg_id :: string
  sg_market :: ParsedMarket
  sg_modelProbability :: number
  sg_marketPrice :: number
  sg_edge :: number
  sg_side :: side
  sg_size :: number
  sg_kelly :: number
  sg_confidence :: ConfidenceTier
  sg_createdAt :: number

datatype PositionStatus = Open | Won | Lost | Expired

record Position =
  pos_id :: string
  pos_signalId :: string
  pos_conditionId :: string
  pos_size :: number
  pos_status :: PositionStatus

record Env =
  env_now :: number
  env_getTime :: "string \<Rightarrow> number"
  env_randomUUID :: "nat \<Rightarrow> string"

definition MIN_VOLUME :: number where
  "MIN_VOLUME = Fin 1000"

definition MIN_HOURS_TO_SETTLE :: number where
  "MIN_HOURS_TO_SETTLE = Fin 2"

definition getConfidence :: "number \<Rightarrow> ConfidenceTier \<Rightarrow> ConfidenceTier" where
  "getConfidence edge consensusConfidence =
     (if consensusConfidence = LOCK \<or> nge edge (Fin 0.25) then LOCK
      else if consensusConfidence = STRONG \<or> nge edge (Fin 0.15) then STRONG
      else if nge edge (Fin 0.10) then SAFE
      else NEAR_SAFE)"

text \<open>
  The loop body of \<open>generateSignals\<close> is modelled in three parts, in the order of the
  source: \<open>chooseSide\<close> is the side selection written inline in the loop,
  \<open>eligible\<close> is the body up to and including the minimum-edge check (\<open>None\<close> is
  \<open>continue\<close>), and \<open>signalFor\<close> adds the sizing and builds the signal. \<open>drawn\<close> is
  the number of UUIDs drawn so far. The logging calls do not affect the result.
\<close>

definition chooseSide ::
  "number \<Rightarrow> number \<Rightarrow> number \<Rightarrow> (side \<times> number \<times> number \<times> number) option" where
  "chooseSide consensusProb yesPrice noPrice =
     (let yesEdge = nsub consensusProb yesPrice;
          noEdge = nsub (nsub (Fin 1) consensusProb) noPrice
      in if nge yesEdge noEdge \<and> ngt yesEdge (Fin 0) then
           Some (YES, yesEdge, consensusProb, yesPrice)
         else if ngt noEdge (Fin 0) then
           Some (NO, noEdge, nsub (Fin 1) consensusProb, noPrice)
         else None)"

definition eligible ::
  "Env \<Rightarrow> (jsvalue \<rightharpoonup> EnsembleForecast) \<Rightarrow> AppConfig \<Rightarrow> Position list
     \<Rightarrow> (jsvalue \<rightharpoonup> EnsembleForecast) option \<Rightarrow> ParsedMarket
     \<Rightarrow> (ConsensusResult \<times> side \<times> number \<times> number \<times> number) option" where
  "eligible env gfsEnsembles config openPositions ecmwfEnsembles market =
     (let minEdge = ndiv (cfg_minEdgePct config) (Fin 100);
          now = env_now env;
          openConditionIds =
            set (map pos_conditionId (filter (\<lambda>p. pos_status p = Open) openPositions))
      in if pm_conditionId market \<in> openConditionIds then None
         else if nlt (pm_volume market) MIN_VOLUME then None
         else if nlt (nsub (env_getTime env (pm_endDateIso market)) now)
                     (nmul (nmul (nmul MIN_HOURS_TO_SETTLE (Fin 60)) (Fin 60)) (Fin 1000))
              then None
         else if ngt (nsub (env_getTime env (pm_date market)) now)
                     (Fin (7 * 24 * 60 * 60 * 1000))
              then None
         else
           (case gfsEnsembles (pm_city market) of
              None \<Rightarrow> None
            | Some gfsEnsemble \<Rightarrow>
                (let ecmwfEnsemble =
                       (case ecmwfEnsembles of None \<Rightarrow> None | Some es \<Rightarrow> es (pm_city market))
                 in case calculateConsensus gfsEnsemble ecmwfEnsemble None (pm_date market)
                           (pm_metric market) (pm_bracketType market) (pm_bracketMin market)
                           (pm_bracketMax market) of
                      None \<Rightarrow> None
                    | Some consensus \<Rightarrow>
                        if cr_confidence consensus = SKIP then None
                        else
                          (case chooseSide (cr_consensusProbability consensus)
                                  (pm_yesPrice market) (pm_noPrice market) of
                             None \<Rightarrow> None
                           | Some (side, edge, modelProbability, effectivePrice) \<Rightarrow>
                               if nlt edge minEdge then None
                               else Some (consensus, side, edge, modelProbability,
                                          effectivePrice)))))"

definition signalFor ::
  "Env \<Rightarrow> (jsvalue \<rightharpoonup> EnsembleForecast) \<Rightarrow> AppConfig \<Rightarrow> Position list
     \<Rightarrow> (jsvalue \<rightharpoonup> EnsembleForecast) option \<Rightarrow> nat \<Rightarrow> ParsedMarket \<Rightarrow> Signal option" where
  "signalFor env gfsEnsembles config openPositions ecmwfEnsembles drawn market =
     (case eligible env gfsEnsembles config openPositions ecmwfEnsembles market of
        None \<Rightarrow> None
      | Some (consensus, side, edge, modelProbability, effectivePrice) \<Rightarrow>
          (let bankroll = cfg_bankrollUsdc config;
               sizing = kellySize modelProbability effectivePrice bankroll config;
               adjustedSize0 = nmul (ks_size sizing) (cr_kellyMultiplier consensus);
               adjustedSize1 = nmin adjustedSize0 (nmul bankroll (cfg_maxPositionPct config));
               adjustedSize = ndiv (nfloor (nmul adjustedSize1 (Fin 100))) (Fin 100)
           in if nlt adjustedSize (Fin 0.50) then None
              else
                Some \<lparr>sg_id = env_randomUUID env drawn, sg_market = market,
                      sg_modelProbability = modelProbability,
                      sg_marketPrice = effectivePrice, sg_edge = edge, sg_side = side,
                      sg_size = adjustedSize, sg_kelly = ks_rawKelly sizing,
                      sg_confidence = getConfidence edge (cr_confidence consensus),
                      sg_createdAt = env_now env\<rparr>))"

fun signalLoop ::
  "Env \<Rightarrow> (jsvalue \<rightharpoonup> EnsembleForecast) \<Rightarrow> AppConfig \<Rightarrow> Position list
     \<Rightarrow> (jsvalue \<rightharpoonup> EnsembleForecast) option \<Rightarrow> ParsedMarket list \<Rightarrow> Signal list
     \<Rightarrow> Signal list" where
  "signalLoop env gfsEnsembles config openPositions ecmwfEnsembles [] signals = signals"
| "signalLoop env gfsEnsembles config openPositions ecmwfEnsembles (market # rest) signals =
     (case signalFor env gfsEnsembles config openPositions ecmwfEnsembles (length signals)
             market of
        None \<Rightarrow> signalLoop env gfsEnsembles config openPositions ecmwfEnsembles rest signals
      | Some signal \<Rightarrow>
          signalLoop env gfsEnsembles config openPositions ecmwfEnsembles rest
            (signals @ [signal]))"

definition generateSignals ::
  "Env \<Rightarrow> ParsedMarket list \<Rightarrow> (jsvalue \<rightharpoonup> EnsembleForecast) \<Rightarrow> AppConfig
     \<Rightarrow> Position list \<Rightarrow> (jsvalue \<rightharpoonup> EnsembleForecast) option \<Rightarrow> Signal list" where
  "generateSignals env markets gfsEnsembles config openPositions ecmwfEnsembles =
     signalLoop env gfsEnsembles config openPositions ecmwfEnsembles markets []"


section \<open>Notions used in the statements\<close>

text \<open>The member array a metric selects, for stating properties.\<close>

definition memberValues :: "DailyForecast \<Rightarrow> metric \<Rightarrow> number list" where
  "memberValues forecast m = (case m of High \<Rightarrow> df_highs forecast | Low \<Rightarrow> df_lows forecast)"

text \<open>
  The first of the three patterns that matches a title, in the order the parser tries
  them (between, or below, or higher), with the capture groups of that match.
\<close>

definition firstPattern :: "string \<Rightarrow> (bracketType \<times> string list) option" where
  "firstPattern title =
     (case rexec RE_BETWEEN title of
        Some m \<Rightarrow> Some (Between, m)
      | None \<Rightarrow>
          (case rexec RE_OR_BELOW title of
             Some m \<Rightarrow> Some (Below, m)
           | None \<Rightarrow>
               (case rexec RE_OR_HIGHER title of
                  Some m \<Rightarrow> Some (Above, m)
                | None \<Rightarrow> None)))"

text \<open>A non-empty string of ASCII digits.\<close>

definition isDigits :: "string \<Rightarrow> bool" where
  "isDigits d = (d \<noteq> [] \<and> list_all isDigit d)"

text \<open>
  What the parser does with a matched pattern: resolve the city, parse the date, build
  the descriptor.
\<close>

definition describe ::
  "Host \<Rightarrow> RawMarket \<Rightarrow> bracketType \<Rightarrow> string \<Rightarrow> string \<Rightarrow> number \<Rightarrow> number
     \<Rightarrow> ParsedMarket option" where
  "describe host raw kind c d lo hi =
     (case matchCity c of
        None \<Rightarrow> None
      | Some slug \<Rightarrow>
          (case parseDate host d of
             None \<Rightarrow> None
           | Some date \<Rightarrow> Some (buildParsed raw slug date High kind lo hi)))"

text \<open>
  The resolution of a city and the conversion of a date in the words of the
  specification. The city phrase is normalised (trimmed, lower case) and matched against
  the alias table, by exact match first, then by substring in either direction, the first
  match winning; it is unresolved when no alias matches. A date text "Month Day" is
  converted to a zero-padded calendar date of the given year; it is unparsable when it
  has fewer than two parts, its first part is no month name of the table, or its second
  part has no digit.
\<close>

definition specResolveCity :: "string \<Rightarrow> string option" where
  "specResolveCity raw =
     (let normalized = toLowerCase (trim raw) in
      case map_of CITY_ALIASES normalized of
        Some slug \<Rightarrow> Some slug
      | None \<Rightarrow>
          (case find (\<lambda>(alias, slug). str_includes normalized alias \<or> str_includes alias normalized)
                  CITY_ALIASES of
             Some (alias, slug) \<Rightarrow> Some slug
           | None \<Rightarrow> None))"

definition specParseDate :: "nat \<Rightarrow> string \<Rightarrow> string option" where
  "specParseDate year raw =
     (let parts = split (trim raw) in
      if length parts < 2 then None
      else
        (case map_of MONTHS (toLowerCase (parts ! 0)) of
           None \<Rightarrow> None
         | Some monthNum \<Rightarrow>
             if filter isDigit (parts ! 1) = [] then None
             else Some (toString year @ ''-'' @ monthNum @ ''-''
                          @ padStart2 (filter isDigit (parts ! 1)))))"

text \<open>
  The fields of a descriptor that the parser computes from the title: bracket type,
  lower bound, upper bound, metric, city and date.
\<close>

definition parsedFields ::
  "ParsedMarket \<Rightarrow> bracketType \<times> number \<times> number \<times> metric \<times> jsvalue \<times> string" where
  "parsedFields p =
     (pm_bracketType p, pm_bracketMin p, pm_bracketMax p, pm_metric p, pm_city p, pm_date p)"

text \<open>
  The secondary probability as \<open>calculateConsensus\<close> computes it, the number of models
  it consults (the primary, the secondary when its probability is available, the point
  forecast when a tiebreaker is formed from it), and the tier cascade in the words of the
  specification, over that number and the agreement ratio.
\<close>

definition ecmwfProbability ::
  "EnsembleForecast option \<Rightarrow> string \<Rightarrow> metric \<Rightarrow> bracketType \<Rightarrow> number \<Rightarrow> number
     \<Rightarrow> number option" where
  "ecmwfProbability ecmwfEnsemble date m bt bracketMin bracketMax =
     (case ecmwfEnsemble of
        None \<Rightarrow> None
      | Some e \<Rightarrow> getModelProbability e date m bt bracketMin bracketMax)"

definition modelsConsulted ::
  "EnsembleForecast option \<Rightarrow> number option \<Rightarrow> string \<Rightarrow> metric \<Rightarrow> bracketType \<Rightarrow> number
     \<Rightarrow> number \<Rightarrow> nat" where
  "modelsConsulted ecmwfEnsemble nwsHigh date m bt bracketMin bracketMax =
     1 + (if ecmwfProbability ecmwfEnsemble date m bt bracketMin bracketMax = None then 0 else 1)
       + (if nwsInBracket nwsHigh m bt bracketMin bracketMax = None then 0 else 1)"

definition tierRule :: "nat \<Rightarrow> real \<Rightarrow> ConfidenceTier \<times> number" where
  "tierRule n ratio =
     (if n \<ge> 2 \<and> ratio = 1 then (LOCK, Fin 1.5)
      else if n \<ge> 2 \<and> ratio \<ge> 0.66 then (STRONG, Fin 1.2)
      else if n = 1 then (SAFE, Fin 1)
      else if ratio \<ge> 0.5 then (NEAR_SAFE, Fin 0.7)
      else (SKIP, Fin 0))"

text \<open>
  The size of a signal in the words of the specification: the base size of
  \<open>kellySize\<close> at a probability and a price, times the tier's multiplier, capped at
  \<open>bankroll * maxPositionPct\<close>, rounded down to cents.
\<close>

definition sizeFrom :: "number \<Rightarrow> number \<Rightarrow> number \<Rightarrow> AppConfig \<Rightarrow> number" where
  "sizeFrom p price multiplier config =
     ndiv (nfloor (nmul
        (nmin (nmul (ks_size (kellySize p price (cfg_bankrollUsdc config) config)) multiplier)
              (nmul (cfg_bankrollUsdc config) (cfg_maxPositionPct config)))
        (Fin 100))) (Fin 100)"

text \<open>A signal with its identifier erased.\<close>

definition withoutId :: "Signal \<Rightarrow> Signal" where
  "withoutId s = s\<lparr>sg_id := []\<rparr>"

section \<open>Test data\<close>

text \<open>
  The data of the repository's tests (\<open>MOCK_HIGHS\<close>, \<open>FORECAST\<close>, \<open>makeRaw\<close>,
  \<open>HIGHS\<close>, \<open>ENSEMBLE\<close>, \<open>makeMarket\<close>, \<open>DEFAULT_CONFIG\<close>, and the titles \<open>t1\<close>
  to \<open>t4\<close> in the formats of those tests), an environment whose clock stands at
  midnight UTC of 16 February 2026, and a few values more.
\<close>

text \<open>The ensemble of the repository's tests: 31 members, ten each at 41, 42 and 43
  degrees and one at 44; the lows are 15 degrees under the highs.\<close>

definition MOCK_HIGHS :: "real list" where
  "MOCK_HIGHS = replicate 10 41 @ replicate 10 42 @ replicate 10 43 @ [44]"

definition FORECAST :: DailyForecast where
  "FORECAST = \<lparr>df_date = ''2026-02-17'', df_highs = map Fin MOCK_HIGHS,
               df_lows = map (\<lambda>h. Fin (h - 15)) MOCK_HIGHS\<rparr>"

definition makeRaw :: "string \<Rightarrow> RawMarket" where
  "makeRaw title =
     \<lparr>rm_conditionId = ''cond-123'', rm_questionId = ''q-123'', rm_title = title,
      rm_slug = ''test-slug'', rm_outcomes = [''Yes'', ''No''],
      rm_outcomePrices = [''0.50'', ''0.50''],
      rm_tokens = [\<lparr>mt_tokenId = ''yes-token'', mt_outcome = ''Yes'', mt_price = Fin 0.5\<rparr>,
                   \<lparr>mt_tokenId = ''no-token'', mt_outcome = ''No'', mt_price = Fin 0.5\<rparr>],
      rm_volume = Fin 10000, rm_endDateIso = ''2026-02-18T00:00:00Z'',
      rm_active = True, rm_closed = False\<rparr>"

definition t1 :: string where
  "t1 = ''Will the highest temperature in New York City be between 32-33'' @ [degree] @ ''F on February 16?''"
definition t2 :: string where
  "t2 = ''Will the highest temperature in Seattle be 40'' @ [degree] @ ''F or below on March 5?''"
definition t3 :: string where
  "t3 = ''Will the highest temperature in Dallas be 70'' @ [degree] @ ''F or higher on February 17?''"
definition t4 :: string where
  "t4 = ''Will the highest temperature in Tokyo be between 40-41'' @ [degree] @ ''F on February 17?''"

definition DEFAULT_CONFIG :: AppConfig where
  "DEFAULT_CONFIG = \<lparr>cfg_mode = Paper, cfg_bankrollUsdc = Fin 100, cfg_maxPositionPct = Fin 0.05,
     cfg_minEdgePct = Fin 8, cfg_kellyFraction = Fin 0.25, cfg_maxOpenPositions = Fin 10\<rparr>"

text \<open>
  A host in the year 2026 that prints a built-in function on one line (engines differ
  in the white space they print; the function stored under \<open>constructor\<close> is
  \<open>Object\<close>).
\<close>

definition HOST_2026 :: Host where
  "HOST_2026 =
     \<lparr>host_year = 2026,
      host_functionText =
        (\<lambda>k. ''function '' @ (if k = ''constructor'' then ''Object'' else k)
               @ ''() { [native code] }'')\<rparr>"

text \<open>
  The title of the test for an unknown city with \<open>Constructor\<close> for the city, and the
  title of the test for "or higher" with \<open>__proto__\<close> for the month. Neither is an
  alias of \<open>CITY_ALIASES\<close> or a month of \<open>MONTHS\<close>.
\<close>

definition T_CONSTRUCTOR :: string where
  "T_CONSTRUCTOR =
     ''Will the highest temperature in Constructor be between 40-41'' @ [degree]
       @ ''F on February 17?''"

definition T_PROTO :: string where
  "T_PROTO =
     ''Will the highest temperature in Dallas be 70'' @ [degree]
       @ ''F or higher on __proto__ 17?''"

text \<open>A title in capital letters, with no degree sign.\<close>

definition t5 :: string where
  "t5 = ''WILL THE HIGHEST TEMPERATURE IN MIAMI BE BETWEEN 78-79 F ON FEBRUARY 17?''"

definition HIGHS :: "real list" where
  "HIGHS = replicate 10 42 @ replicate 10 43 @ replicate 5 41 @ replicate 6 44"

definition ENSEMBLE :: EnsembleForecast where
  "ENSEMBLE = \<lparr>ef_city = ''nyc'', ef_fetchedAt = Fin 0,
      ef_daily = [\<lparr>df_date = ''2026-02-17'', df_highs = map Fin HIGHS,
                   df_lows = map (\<lambda>h. Fin (h - 15)) HIGHS\<rparr>]\<rparr>"

definition makeMarket :: "number \<Rightarrow> number \<Rightarrow> ParsedMarket" where
  "makeMarket yesPrice noPrice =
     \<lparr>pm_conditionId = ''cond-1'', pm_title = ''test'', pm_city = Str ''nyc'',
      pm_date = ''2026-02-17'', pm_metric = High, pm_bracketMin = Fin 42,
      pm_bracketMax = Fin 44, pm_bracketType = Between, pm_yesTokenId = ''yes-1'',
      pm_noTokenId = ''no-1'', pm_yesPrice = yesPrice, pm_noPrice = noPrice,
      pm_volume = Fin 5000, pm_endDateIso = ''2026-02-18T00:00:00Z''\<rparr>"

definition testEnv :: "(nat \<Rightarrow> string) \<Rightarrow> Env" where
  "testEnv uuids = \<lparr>env_now = Fin 1771200000000,
     env_getTime = (\<lambda>s. if s = ''2026-02-18T00:00:00Z'' then Fin 1771372800000
                          else if s = ''2026-02-17'' then Fin 1771286400000 else NaN),
     env_randomUUID = uuids\<rparr>"

text \<open>A second ensemble of four members, for the secondary model.\<close>

definition ECMWF_ENSEMBLE :: EnsembleForecast where
  "ECMWF_ENSEMBLE = \<lparr>ef_city = ''nyc'', ef_fetchedAt = Fin 0,
      ef_daily = [\<lparr>df_date = ''2026-02-17'', df_highs = [Fin 41, Fin 42, Fin 43, Fin 44],
                   df_lows = [Fin 26, Fin 27, Fin 28, Fin 29]\<rparr>]\<rparr>"

text \<open>
  Two UUID supplies, a market on the bracket from 44 to 45 priced at one half on each
  side (the model probability 6/31 makes NO the better side), and what the generator
  computes for it.
\<close>

definition UUIDS_A :: "nat \<Rightarrow> string" where
  "UUIDS_A k = ''3f2b8c1e-0000-4000-8000-00000000000a''"

definition UUIDS_B :: "nat \<Rightarrow> string" where
  "UUIDS_B k = ''3f2b8c1e-0000-4000-8000-00000000000b''"

definition NO_MARKET :: ParsedMarket where
  "NO_MARKET = (makeMarket (Fin 0.5) (Fin 0.5))\<lparr>pm_bracketMin := Fin 44, pm_bracketMax := Fin 45\<rparr>"

definition GFS_MAP :: "jsvalue \<rightharpoonup> EnsembleForecast" where
  "GFS_MAP = [Str ''nyc'' \<mapsto> ENSEMBLE]"

definition NO_CONSENSUS :: ConsensusResult where
  "NO_CONSENSUS =
     \<lparr>cr_gfsProbability = Fin (6 / 31), cr_ecmwfProbability = None, cr_nwsHigh = None,
      cr_consensusProbability = Fin (6 / 31), cr_confidence = SAFE, cr_modelsAgreeing = 1,
      cr_kellyMultiplier = Fin 1\<rparr>"

definition NO_SIGNAL :: Signal where
  "NO_SIGNAL =
     \<lparr>sg_id = [], sg_market = NO_MARKET, sg_modelProbability = Fin (25 / 31),
      sg_marketPrice = Fin (1 / 2), sg_edge = Fin (19 / 62), sg_side = NO, sg_size = Fin 5,
      sg_kelly = Fin (19 / 31), sg_confidence = LOCK, sg_createdAt = Fin 1771200000000\<rparr>"

text \<open>A configuration with a bankroll of 5, whose largest position is 0.25.\<close>

definition SMALL_CONFIG :: AppConfig where
  "SMALL_CONFIG = DEFAULT_CONFIG\<lparr>cfg_bankrollUsdc := Fin 5\<rparr>"

text \<open>The same environment two days later, at the market's settlement time.\<close>

definition LATER_ENV :: Env where
  "LATER_ENV = (testEnv UUIDS_A)\<lparr>env_now := Fin 1771372800000\<rparr>"

section \<open>Properties of the probability engine\<close>

lemma memberValues_if:
  "(if m = High then df_highs f else df_lows f) = memberValues f m"
  by (cases m) (simp_all add: memberValues_def)

lemma length_filter_card:
  "length (filter P xs) = card {i. i < length xs \<and> P (xs ! i)}"
  by (rule length_filter_conv_card)

lemma MOCK_HIGHS_unfold:
  "MOCK_HIGHS = [41,41,41,41,41,41,41,41,41,41, 42,42,42,42,42,42,42,42,42,42,
                 43,43,43,43,43,43,43,43,43,43, 44]"
  by (simp add: MOCK_HIGHS_def numeral_eq_Suc)

lemma FORECAST_bucket_42_44:
  "bp_memberCount (calcBucketProbability FORECAST High (Fin 42) (Fin 44)) = 20 \<and>
   bp_probability (calcBucketProbability FORECAST High (Fin 42) (Fin 44)) = Fin (20 / 31)"
  by (simp add: calcBucketProbability_def FORECAST_def MOCK_HIGHS_unfold nge_def)

lemma FORECAST_bucket_boundaries:
  "bp_memberCount (calcBucketProbability FORECAST High (Fin 44) (Fin 45)) = 1 \<and>
   bp_memberCount (calcBucketProbability FORECAST High (Fin 41) (Fin 44)) = 30"
  by (simp add: calcBucketProbability_def FORECAST_def MOCK_HIGHS_unfold nge_def)

text \<open>
  Claim C1. For every daily forecast entry, metric and pair of bounds,
  \<open>calcBucketProbability\<close> counts exactly the members \<open>v\<close> with \<open>min \<le> v < max\<close>
  (the lower bound is inclusive, the upper bound exclusive), reports that count as
  \<open>memberCount\<close>, and returns the count divided by the number of members as the
  probability; when the metric's member array is empty it returns probability 0 and
  member count 0 and divides nothing. The bounds need not satisfy \<open>min < max\<close>.
\<close>

theorem calcBucketProbability_counts:
  "(let temps = memberValues forecast m;
        inBucketCount =
          card {i. i < length temps \<and> nle lo (temps ! i) \<and> nlt (temps ! i) hi};
        r = calcBucketProbability forecast m lo hi
    in bp_memberCount r = inBucketCount \<and>
       bp_probability r =
         (if temps = [] then Fin 0 else Fin (real inBucketCount / real (length temps))))"
  by (simp add: calcBucketProbability_def Let_def memberValues_if length_filter_card nge_def)

theorem calcBucketProbability_counts_witness:
  "card {i. i < length (memberValues FORECAST High) \<and>
            nle (Fin 42) (memberValues FORECAST High ! i) \<and>
            nlt (memberValues FORECAST High ! i) (Fin 44)} = 20 \<and>
   bp_memberCount (calcBucketProbability FORECAST High (Fin 42) (Fin 44)) = 20 \<and>
   bp_probability (calcBucketProbability FORECAST High (Fin 42) (Fin 44)) = Fin (20 / 31) \<and>
   bp_probability (calcBucketProbability
      \<lparr>df_date = ''2026-02-17'', df_highs = [], df_lows = []\<rparr> High (Fin 40) (Fin 50)) = Fin 0 \<and>
   bp_memberCount (calcBucketProbability
      \<lparr>df_date = ''2026-02-17'', df_highs = [], df_lows = []\<rparr> High (Fin 40) (Fin 50)) = 0"
  using calcBucketProbability_counts [of FORECAST High "Fin 42" "Fin 44"]
        calcBucketProbability_counts
          [of "\<lparr>df_date = ''2026-02-17'', df_highs = [], df_lows = []\<rparr>" High "Fin 40" "Fin 50"]
        FORECAST_bucket_42_44
  by (simp add: Let_def memberValues_def)

lemma nlt_iff_not_nge: "x \<noteq> NaN \<Longrightarrow> t \<noteq> NaN \<Longrightarrow> nlt x t \<longleftrightarrow> \<not> nge x t"
  by (cases x; cases t) (auto simp: nge_def)

text \<open>
  Claim C2. For every daily forecast entry whose member array for the chosen metric is
  non-empty and every threshold \<open>t\<close>, the members and the threshold being numbers (not
  \<open>NaN\<close>, which satisfies neither comparison), \<open>calcAboveProbability\<close> plus
  \<open>calcBelowProbability\<close> at \<open>t\<close> is exactly 1: every member satisfies exactly one of
  \<open>v \<ge> t\<close> and \<open>v < t\<close>.
\<close>

theorem above_plus_below_is_one:
  assumes "memberValues forecast m \<noteq> []" and "NaN \<notin> set (memberValues forecast m)"
    and "t \<noteq> NaN"
  shows "nadd (calcAboveProbability forecast m t) (calcBelowProbability forecast m t) = Fin 1"
proof -
  let ?temps = "memberValues forecast m"
  let ?a = "length (filter (\<lambda>x. nge x t) ?temps)"
  let ?b = "length (filter (\<lambda>x. nlt x t) ?temps)"
  have "filter (\<lambda>x. nlt x t) ?temps = filter (\<lambda>x. \<not> nge x t) ?temps"
    using assms(2,3) by (intro filter_cong refl nlt_iff_not_nge) auto
  then have split: "?a + ?b = length ?temps"
    using sum_length_filter_compl [of "\<lambda>x. nge x t" ?temps] by simp
  have n: "real (length ?temps) \<noteq> 0" using assms(1) by simp
  have above: "calcAboveProbability forecast m t = Fin (real ?a / real (length ?temps))"
    using assms(1) by (simp add: calcAboveProbability_def memberValues_if Let_def)
  have below: "calcBelowProbability forecast m t = Fin (real ?b / real (length ?temps))"
    using assms(1) by (simp add: calcBelowProbability_def memberValues_if Let_def)
  have "real ?a / real (length ?temps) + real ?b / real (length ?temps)
          = real (?a + ?b) / real (length ?temps)"
    by (simp add: add_divide_distrib)
  also have "\<dots> = 1" using n by (simp only: split) simp
  finally show ?thesis by (simp add: above below)
qed

theorem above_plus_below_is_one_witness:
  "memberValues FORECAST High \<noteq> [] \<and>
   calcAboveProbability FORECAST High (Fin 42) = Fin (21 / 31) \<and>
   calcBelowProbability FORECAST High (Fin 42) = Fin (10 / 31) \<and>
   nadd (calcAboveProbability FORECAST High (Fin 42))
        (calcBelowProbability FORECAST High (Fin 42)) = Fin 1"
proof -
  have mv: "memberValues FORECAST High = map Fin MOCK_HIGHS"
    by (simp add: memberValues_def FORECAST_def)
  have h1: "memberValues FORECAST High \<noteq> []" by (simp add: mv MOCK_HIGHS_unfold)
  have h2: "NaN \<notin> set (memberValues FORECAST High)" by (auto simp: mv)
  have h3: "Fin 42 \<noteq> NaN" by simp
  have a: "calcAboveProbability FORECAST High (Fin 42) = Fin (21 / 31)"
    by (simp add: calcAboveProbability_def FORECAST_def MOCK_HIGHS_unfold nge_def)
  have b: "calcBelowProbability FORECAST High (Fin 42) = Fin (10 / 31)"
    by (simp add: calcBelowProbability_def FORECAST_def MOCK_HIGHS_unfold)
  show ?thesis using above_plus_below_is_one [OF h1 h2 h3] h1 a b by simp
qed

section \<open>Properties of the market title parser\<close>

lemma rmatch_caps_length:
  "rmatch r s st caps = Some m \<Longrightarrow> length m = length caps + count_list r GClose"
  apply (induction r s st caps arbitrary: m rule: rmatch.induct)
  subgoal by simp
  subgoal by simp
  subgoal by (simp split: if_splits)
  subgoal by simp
  subgoal for a r c cs st caps m
    apply (cases "accepts a c")
     apply (cases "rmatch r cs st caps")
      apply simp
     apply simp
    apply simp
    done
  subgoal by simp
  subgoal for a r c cs st caps m
    apply (cases "accepts a c")
     apply (cases "rmatch (Star a # r) cs st caps")
      apply simp
     apply simp
    apply simp
    done
  subgoal by simp
  subgoal by (simp split: if_splits)
  subgoal by simp
  subgoal for a r c cs st caps m
    apply (cases "rmatch r (c # cs) st caps")
     apply (cases "accepts a c")
      apply simp
     apply simp
    apply simp
    done
  subgoal by simp
  subgoal by (simp split: if_splits)
  subgoal by simp
  subgoal by simp
  done


lemma rexec_caps_length:
  "rexec r s = Some m \<Longrightarrow> length m = count_list r GClose"
proof (induction r s rule: rexec.induct)
  case (1 re)
  then show ?case using rmatch_caps_length [of re "[]" "[]" "[]" m] by simp
next
  case (2 re c cs)
  show ?case
  proof (cases "rmatch re (c # cs) [] []")
    case None
    with 2 show ?thesis by simp
  next
    case (Some m')
    with 2 have "m' = m" by simp
    with Some show ?thesis using rmatch_caps_length [of re "c # cs" "[]" "[]" m] by simp
  qed
qed

lemma RE_BETWEEN_groups: "count_list RE_BETWEEN GClose = 4"
  by (simp add: RE_BETWEEN_def lit_def)
lemma RE_OR_BELOW_groups: "count_list RE_OR_BELOW GClose = 3"
  by (simp add: RE_OR_BELOW_def lit_def)
lemma RE_OR_HIGHER_groups: "count_list RE_OR_HIGHER GClose = 3"
  by (simp add: RE_OR_HIGHER_def lit_def)

lemma parseMarketTitle_firstPattern:
  "parseMarketTitle host raw =
     (case firstPattern (rm_title raw) of
        None \<Rightarrow> None
      | Some (Between, m) \<Rightarrow>
          describe host raw Between (m ! 0) (m ! 3) (Number (m ! 1)) (nadd (Number (m ! 2)) (Fin 1))
      | Some (Below, m) \<Rightarrow>
          describe host raw Below (m ! 0) (m ! 2) NInf (nadd (Number (m ! 1)) (Fin 1))
      | Some (Above, m) \<Rightarrow>
          describe host raw Above (m ! 0) (m ! 2) (Number (m ! 1)) PInf)"
  by (simp add: parseMarketTitle_def firstPattern_def describe_def Let_def split: option.split)

text \<open>
  Claim C10. Every descriptor \<open>parseMarketTitle\<close> returns has metric \<open>high\<close>: none
  of its three branches builds a descriptor for the daily low, although the data model
  has that metric.
\<close>

theorem parseMarketTitle_metric_high:
  "parseMarketTitle host raw = Some p \<Longrightarrow> pm_metric p = High"
  unfolding parseMarketTitle_firstPattern
  by (auto simp: describe_def buildParsed_def split: option.splits bracketType.splits)


lemma firstPattern_length:
  "firstPattern title = Some (kind, m) \<Longrightarrow> length m = (if kind = Between then 4 else 3)"
  by (auto simp: firstPattern_def split: option.splits
           dest!: rexec_caps_length simp: RE_BETWEEN_groups RE_OR_BELOW_groups RE_OR_HIGHER_groups)

lemma rmatch_Star:
  "rmatch (Star a # r) s st caps = Some m \<Longrightarrow>
   \<exists>d s'. s = d @ s' \<and> list_all (accepts a) d \<and> rmatch r s' st caps = Some m"
proof (induction s)
  case Nil
  then show ?case by simp
next
  case (Cons c cs)
  show ?case
  proof (cases "accepts a c \<and> rmatch (Star a # r) cs st caps \<noteq> None")
    case True
    then obtain m' where m': "rmatch (Star a # r) cs st caps = Some m'" by auto
    with True Cons.prems have "m' = m" by simp
    with m' Cons.IH obtain d s' where
      "cs = d @ s'" "list_all (accepts a) d" "rmatch r s' st caps = Some m" by blast
    with True have "c # cs = (c # d) @ s' \<and> list_all (accepts a) (c # d) \<and>
        rmatch r s' st caps = Some m" by simp
    then show ?thesis by blast
  next
    case False
    with Cons.prems have "rmatch r (c # cs) st caps = Some m"
      by (auto split: if_splits option.splits)
    then have "c # cs = [] @ (c # cs) \<and> list_all (accepts a) [] \<and>
        rmatch r (c # cs) st caps = Some m" by simp
    then show ?thesis by blast
  qed
qed

lemma rmatch_Plus:
  assumes "rmatch (Plus a # r) s st caps = Some m"
  shows "\<exists>d s'. s = d @ s' \<and> d \<noteq> [] \<and> list_all (accepts a) d \<and> rmatch r s' st caps = Some m"
proof (cases s)
  case Nil
  with assms show ?thesis by simp
next
  case (Cons c cs)
  with assms have c: "accepts a c" and "rmatch (Star a # r) cs st caps = Some m"
    by (simp_all split: if_splits)
  from rmatch_Star [OF this(2)] obtain d s' where
    "cs = d @ s'" "list_all (accepts a) d" "rmatch r s' st caps = Some m" by blast
  with Cons c have "s = (c # d) @ s' \<and> c # d \<noteq> [] \<and> list_all (accepts a) (c # d) \<and>
      rmatch r s' st caps = Some m" by simp
  then show ?thesis by blast
qed

lemma rmatch_StarLazy:
  "rmatch (StarLazy a # r) s st caps = Some m \<Longrightarrow>
   \<exists>d s'. s = d @ s' \<and> list_all (accepts a) d \<and> rmatch r s' st caps = Some m"
proof (induction s)
  case Nil
  then show ?case by simp
next
  case (Cons c cs)
  show ?case
  proof (cases "rmatch r (c # cs) st caps")
    case (Some m')
    with Cons.prems have "m' = m" by simp
    with Some have "c # cs = [] @ (c # cs) \<and> list_all (accepts a) [] \<and>
        rmatch r (c # cs) st caps = Some m" by simp
    then show ?thesis by blast
  next
    case None
    with Cons.prems have c: "accepts a c" and "rmatch (StarLazy a # r) cs st caps = Some m"
      by (simp_all split: if_splits)
    with Cons.IH obtain d s' where
      "cs = d @ s'" "list_all (accepts a) d" "rmatch r s' st caps = Some m" by blast
    with c have "c # cs = (c # d) @ s' \<and> list_all (accepts a) (c # d) \<and>
        rmatch r s' st caps = Some m" by simp
    then show ?thesis by blast
  qed
qed

text \<open>Matching one item leads to a match of the rest, with one more capture exactly when
  the item closes a group.\<close>

lemma rmatch_item:
  assumes "rmatch (i # r) s st caps = Some m"
  shows "\<exists>s' st' caps'. rmatch r s' st' caps' = Some m \<and>
           length caps' = length caps + count_list [i] GClose"
proof (cases i)
  case (One a)
  with assms show ?thesis by (cases s) (auto split: if_splits)
next
  case (Opt a)
  with assms show ?thesis by (cases s) (auto split: if_splits option.splits)
next
  case (Star a)
  with assms rmatch_Star [of a r s st caps m] show ?thesis by auto
next
  case (Plus a)
  with assms rmatch_Plus [of a r s st caps m] show ?thesis by auto
next
  case (StarLazy a)
  with assms rmatch_StarLazy [of a r s st caps m] show ?thesis by auto
next
  case (PlusLazy a)
  with assms obtain c cs where "s = c # cs" "rmatch (StarLazy a # r) cs st caps = Some m"
    by (cases s) (auto split: if_splits)
  with rmatch_StarLazy [of a r cs st caps m] PlusLazy show ?thesis by auto
next
  case GOpen
  with assms show ?thesis by auto
next
  case GClose
  with assms have "rmatch r s st (caps @ [take (length st - length s) st]) = Some m" by simp
  moreover have "length (caps @ [take (length st - length s) st]) = length caps + 1" by simp
  ultimately show ?thesis unfolding GClose by (metis count_list.simps One_nat_def add.commute plus_1_eq_Suc)
qed

lemma rmatch_prefix:
  "rmatch (pre @ r) s st caps = Some m \<Longrightarrow>
   \<exists>s' st' caps'. rmatch r s' st' caps' = Some m \<and>
      length caps' = length caps + count_list pre GClose"
proof (induction pre arbitrary: s st caps)
  case Nil
  then show ?case by auto
next
  case (Cons i pre)
  then have "rmatch (i # (pre @ r)) s st caps = Some m" by simp
  from rmatch_item [OF this] obtain s1 st1 caps1 where
    1: "rmatch (pre @ r) s1 st1 caps1 = Some m"
       "length caps1 = length caps + count_list [i] GClose" by blast
  from Cons.IH [OF 1(1)] obtain s' st' caps' where
    "rmatch r s' st' caps' = Some m" "length caps' = length caps1 + count_list pre GClose"
    by blast
  with 1(2) have "rmatch r s' st' caps' = Some m \<and>
      length caps' = length caps + count_list (i # pre) GClose" by simp
  then show ?case by blast
qed


lemma rmatch_caps_kept:
  "rmatch r s st caps = Some m \<Longrightarrow> take (length caps) m = caps"
  apply (induction r s st caps arbitrary: m rule: rmatch.induct)
  subgoal by simp
  subgoal by simp
  subgoal by (simp split: if_splits)
  subgoal by simp
  subgoal for a r c cs st caps m
    apply (cases "accepts a c")
     apply (cases "rmatch r cs st caps")
      apply simp
     apply simp
    apply simp
    done
  subgoal by simp
  subgoal for a r c cs st caps m
    apply (cases "accepts a c")
     apply (cases "rmatch (Star a # r) cs st caps")
      apply simp
     apply simp
    apply simp
    done
  subgoal by simp
  subgoal by (simp split: if_splits)
  subgoal by simp
  subgoal for a r c cs st caps m
    apply (cases "rmatch r (c # cs) st caps")
     apply (cases "accepts a c")
      apply simp
     apply simp
    apply simp
    done
  subgoal by simp
  subgoal by (simp split: if_splits)
  subgoal by simp
  subgoal for r s st caps m
  proof -
    assume ih: "\<And>m. rmatch r s st (caps @ [take (length st - length s) st]) = Some m \<Longrightarrow>
        take (length (caps @ [take (length st - length s) st])) m =
        caps @ [take (length st - length s) st]"
      and m: "rmatch (GClose # r) s st caps = Some m"
    from m have "rmatch r s st (caps @ [take (length st - length s) st]) = Some m" by simp
    from ih [OF this] have "take (Suc (length caps)) m = caps @ [take (length st - length s) st]"
      by simp
    then have "take (length caps) (take (Suc (length caps)) m) = caps" by simp
    then show "take (length caps) m = caps" by (simp add: min_def)
  qed
  done

text \<open>A group \<open>(\d+)\<close> captures a non-empty string of digits, at the next group index.\<close>

lemma rmatch_digit_group:
  assumes "rmatch (GOpen # Plus Digit # GClose # r) s st caps = Some m"
  shows "isDigits (m ! length caps) \<and>
         (\<exists>s' st' caps'. rmatch r s' st' caps' = Some m \<and> length caps' = Suc (length caps))"
proof -
  from assms have "rmatch (Plus Digit # GClose # r) s s caps = Some m" by simp
  from rmatch_Plus [OF this] obtain d s' where d:
    "s = d @ s'" "d \<noteq> []" "list_all (accepts Digit) d" "rmatch (GClose # r) s' s caps = Some m"
    by blast
  from d(1) have "take (length s - length s') s = d" by simp
  with d(4) have r: "rmatch r s' s (caps @ [d]) = Some m" by simp
  from rmatch_caps_kept [OF r] have "take (Suc (length caps)) m = caps @ [d]" by simp
  then have "take (Suc (length caps)) m ! length caps = d" by simp
  then have "m ! length caps = d" by simp
  moreover from d(2,3) have "isDigits d" by (simp add: isDigits_def list_all_iff)
  ultimately show ?thesis using r by (metis length_append_singleton)
qed

lemma rexec_rmatch:
  "rexec r s = Some m \<Longrightarrow> \<exists>s'. rmatch r s' [] [] = Some m"
proof (induction r s rule: rexec.induct)
  case (1 re)
  then show ?case by auto
next
  case (2 re c cs)
  show ?case
  proof (cases "rmatch re (c # cs) [] []")
    case None
    with 2 show ?thesis by simp
  next
    case (Some m')
    with 2 have "m' = m" by simp
    with Some show ?thesis by blast
  qed
qed


lemma RE_BETWEEN_digits:
  assumes "rexec RE_BETWEEN s = Some m"
  shows "isDigits (m ! 1) \<and> isDigits (m ! 2)"
proof -
  define P1 where "P1 = lit ''highest'' @ [Plus Space] @ lit ''temperature'' @ [Plus Space] @
     lit ''in'' @ [Plus Space, GOpen, PlusLazy Dot, GClose, Plus Space] @ lit ''be'' @
     [Plus Space] @ lit ''between'' @ [Plus Space]"
  define P2 where "P2 = [Star Space, One (Chr CHR ''-''), Star Space]"
  define P3 where "P3 = [Star Space, Opt (Chr degree), Star Space, Opt (Chr CHR ''F''),
     Plus Space] @ lit ''on'' @ [Plus Space, GOpen, Plus Word, Plus Space, Plus Digit, GClose]"
  have re: "RE_BETWEEN = P1 @ (GOpen # Plus Digit # GClose # (P2 @ (GOpen # Plus Digit # GClose # P3)))"
    by (simp add: RE_BETWEEN_def P1_def P2_def P3_def)
  have n1: "count_list P1 GClose = 1" by (simp add: P1_def lit_def)
  have n2: "count_list P2 GClose = 0" by (simp add: P2_def)
  from rexec_rmatch [OF assms] obtain s0 where "rmatch RE_BETWEEN s0 [] [] = Some m" by blast
  then have "rmatch (P1 @ (GOpen # Plus Digit # GClose # (P2 @ (GOpen # Plus Digit # GClose # P3))))
      s0 [] [] = Some m" by (simp only: re)
  from rmatch_prefix [OF this] n1 obtain s1 st1 caps1 where 1:
    "rmatch (GOpen # Plus Digit # GClose # (P2 @ (GOpen # Plus Digit # GClose # P3))) s1 st1 caps1
       = Some m" "length caps1 = 1" by auto
  from rmatch_digit_group [OF 1(1)] 1(2) obtain s2 st2 caps2 where 2:
    "isDigits (m ! 1)" "rmatch (P2 @ (GOpen # Plus Digit # GClose # P3)) s2 st2 caps2 = Some m"
    "length caps2 = 2" by auto
  from rmatch_prefix [OF 2(2)] n2 2(3) obtain s3 st3 caps3 where 3:
    "rmatch (GOpen # Plus Digit # GClose # P3) s3 st3 caps3 = Some m" "length caps3 = 2" by auto
  from rmatch_digit_group [OF 3(1)] 3(2) have "isDigits (m ! 2)" by simp
  with 2(1) show ?thesis by simp
qed

lemma RE_OR_BELOW_digits:
  assumes "rexec RE_OR_BELOW s = Some m"
  shows "isDigits (m ! 1)"
proof -
  define P1 where "P1 = lit ''highest'' @ [Plus Space] @ lit ''temperature'' @ [Plus Space] @
     lit ''in'' @ [Plus Space, GOpen, PlusLazy Dot, GClose, Plus Space] @ lit ''be'' @
     [Plus Space]"
  define P2 where "P2 = [Star Space, Opt (Chr degree), Star Space, Opt (Chr CHR ''F''),
     Plus Space] @ lit ''or'' @ [Plus Space] @ lit ''below'' @ [Plus Space] @ lit ''on'' @
     [Plus Space, GOpen, Plus Word, Plus Space, Plus Digit, GClose]"
  have re: "RE_OR_BELOW = P1 @ (GOpen # Plus Digit # GClose # P2)"
    by (simp add: RE_OR_BELOW_def P1_def P2_def)
  have n1: "count_list P1 GClose = 1" by (simp add: P1_def lit_def)
  from rexec_rmatch [OF assms] obtain s0 where "rmatch RE_OR_BELOW s0 [] [] = Some m" by blast
  then have "rmatch (P1 @ (GOpen # Plus Digit # GClose # P2)) s0 [] [] = Some m"
    by (simp only: re)
  from rmatch_prefix [OF this] n1 obtain s1 st1 caps1 where 1:
    "rmatch (GOpen # Plus Digit # GClose # P2) s1 st1 caps1 = Some m" "length caps1 = 1" by auto
  from rmatch_digit_group [OF 1(1)] 1(2) show ?thesis by simp
qed

lemma RE_OR_HIGHER_digits:
  assumes "rexec RE_OR_HIGHER s = Some m"
  shows "isDigits (m ! 1)"
proof -
  define P1 where "P1 = lit ''highest'' @ [Plus Space] @ lit ''temperature'' @ [Plus Space] @
     lit ''in'' @ [Plus Space, GOpen, PlusLazy Dot, GClose, Plus Space] @ lit ''be'' @
     [Plus Space]"
  define P2 where "P2 = [Star Space, Opt (Chr degree), Star Space, Opt (Chr CHR ''F''),
     Plus Space] @ lit ''or'' @ [Plus Space] @ lit ''higher'' @ [Plus Space] @ lit ''on'' @
     [Plus Space, GOpen, Plus Word, Plus Space, Plus Digit, GClose]"
  have re: "RE_OR_HIGHER = P1 @ (GOpen # Plus Digit # GClose # P2)"
    by (simp add: RE_OR_HIGHER_def P1_def P2_def)
  have n1: "count_list P1 GClose = 1" by (simp add: P1_def lit_def)
  from rexec_rmatch [OF assms] obtain s0 where "rmatch RE_OR_HIGHER s0 [] [] = Some m" by blast
  then have "rmatch (P1 @ (GOpen # Plus Digit # GClose # P2)) s0 [] [] = Some m"
    by (simp only: re)
  from rmatch_prefix [OF this] n1 obtain s1 st1 caps1 where 1:
    "rmatch (GOpen # Plus Digit # GClose # P2) s1 st1 caps1 = Some m" "length caps1 = 1" by auto
  from rmatch_digit_group [OF 1(1)] 1(2) show ?thesis by simp
qed

lemma firstPattern_digits:
  assumes "firstPattern title = Some (kind, m)"
  shows "isDigits (m ! 1) \<and> (kind = Between \<longrightarrow> isDigits (m ! 2))"
proof (cases "rexec RE_BETWEEN title")
  case (Some m')
  with assms have "kind = Between" "m' = m" by (simp_all add: firstPattern_def)
  with Some RE_BETWEEN_digits show ?thesis by blast
next
  case None
  show ?thesis
  proof (cases "rexec RE_OR_BELOW title")
    case (Some m')
    with None assms have "kind = Below" "m' = m" by (simp_all add: firstPattern_def)
    with Some RE_OR_BELOW_digits show ?thesis by auto
  next
    case None2: None
    with None assms have "rexec RE_OR_HIGHER title = Some m" "kind = Above"
      by (auto simp: firstPattern_def split: option.splits)
    with RE_OR_HIGHER_digits show ?thesis by auto
  qed
qed

lemma Number_digits: "isDigits d \<Longrightarrow> Number d = Fin (real (decimal d))"
  by (simp add: Number_def isDigits_def)

text \<open>
  What \<open>parseMarketTitle\<close> returns, pattern by pattern. When the first pattern that
  matches is "between X-Y", the descriptor has bracket type between, \<open>bracketMin = X\<close>
  and \<open>bracketMax = Y + 1\<close>; when it is "X or below", type below,
  \<open>bracketMin = -Infinity\<close> and \<open>bracketMax = X + 1\<close>; when it is "X or higher", type
  above, \<open>bracketMin = X\<close> and \<open>bracketMax = Infinity\<close>; \<open>X\<close> and \<open>Y\<close> are the decimal
  values of the captured digits, the metric is high, and city and date are what
  \<open>matchCity\<close> and \<open>parseDate\<close> return. The parser returns null exactly when no pattern
  matches, or \<open>matchCity\<close> returns null for the city captured by the first matching
  pattern, or \<open>parseDate\<close> returns null for its date; it is total, and every capture group
  it reads exists.
\<close>

lemma parseMarketTitle_patterns:
  "(\<forall>m city date.
      firstPattern (rm_title raw) = Some (Between, m) \<and>
      matchCity (m ! 0) = Some city \<and> parseDate host (m ! 3) = Some date \<longrightarrow>
      map_option parsedFields (parseMarketTitle host raw) =
        Some (Between, Fin (real (decimal (m ! 1))), Fin (real (decimal (m ! 2)) + 1),
              High, city, date)) \<and>
   (\<forall>m city date.
      firstPattern (rm_title raw) = Some (Below, m) \<and>
      matchCity (m ! 0) = Some city \<and> parseDate host (m ! 2) = Some date \<longrightarrow>
      map_option parsedFields (parseMarketTitle host raw) =
        Some (Below, NInf, Fin (real (decimal (m ! 1)) + 1), High, city, date)) \<and>
   (\<forall>m city date.
      firstPattern (rm_title raw) = Some (Above, m) \<and>
      matchCity (m ! 0) = Some city \<and> parseDate host (m ! 2) = Some date \<longrightarrow>
      map_option parsedFields (parseMarketTitle host raw) =
        Some (Above, Fin (real (decimal (m ! 1))), PInf, High, city, date)) \<and>
   (parseMarketTitle host raw = None \<longleftrightarrow>
      (case firstPattern (rm_title raw) of
         None \<Rightarrow> True
       | Some (kind, m) \<Rightarrow>
           matchCity (m ! 0) = None \<or>
           parseDate host (m ! (if kind = Between then 3 else 2)) = None)) \<and>
   (\<forall>kind m. firstPattern (rm_title raw) = Some (kind, m) \<longrightarrow>
      length m = (if kind = Between then 4 else 3) \<and>
      isDigits (m ! 1) \<and> (kind = Between \<longrightarrow> isDigits (m ! 2)))"
proof (intro conjI allI impI)
  fix m city date
  assume a: "firstPattern (rm_title raw) = Some (Between, m) \<and>
      matchCity (m ! 0) = Some city \<and> parseDate host (m ! 3) = Some date"
  with firstPattern_digits [of "rm_title raw" Between m]
  have "Number (m ! 1) = Fin (real (decimal (m ! 1)))"
    and "Number (m ! 2) = Fin (real (decimal (m ! 2)))"
    by (simp_all add: Number_digits)
  with a show "map_option parsedFields (parseMarketTitle host raw) =
        Some (Between, Fin (real (decimal (m ! 1))), Fin (real (decimal (m ! 2)) + 1),
              High, city, date)"
    by (simp add: parseMarketTitle_firstPattern describe_def parsedFields_def buildParsed_def)
next
  fix m city date
  assume a: "firstPattern (rm_title raw) = Some (Below, m) \<and>
      matchCity (m ! 0) = Some city \<and> parseDate host (m ! 2) = Some date"
  with firstPattern_digits [of "rm_title raw" Below m]
  have "Number (m ! 1) = Fin (real (decimal (m ! 1)))"
    by (simp add: Number_digits)
  with a show "map_option parsedFields (parseMarketTitle host raw) =
        Some (Below, NInf, Fin (real (decimal (m ! 1)) + 1), High, city, date)"
    by (simp add: parseMarketTitle_firstPattern describe_def parsedFields_def buildParsed_def)
next
  fix m city date
  assume a: "firstPattern (rm_title raw) = Some (Above, m) \<and>
      matchCity (m ! 0) = Some city \<and> parseDate host (m ! 2) = Some date"
  with firstPattern_digits [of "rm_title raw" Above m]
  have "Number (m ! 1) = Fin (real (decimal (m ! 1)))"
    by (simp add: Number_digits)
  with a show "map_option parsedFields (parseMarketTitle host raw) =
        Some (Above, Fin (real (decimal (m ! 1))), PInf, High, city, date)"
    by (simp add: parseMarketTitle_firstPattern describe_def parsedFields_def buildParsed_def)
next
  show "parseMarketTitle host raw = None \<longleftrightarrow>
      (case firstPattern (rm_title raw) of
         None \<Rightarrow> True
       | Some (kind, m) \<Rightarrow>
           matchCity (m ! 0) = None \<or>
           parseDate host (m ! (if kind = Between then 3 else 2)) = None)"
  proof (cases "firstPattern (rm_title raw)")
    case None
    then show ?thesis by (simp add: parseMarketTitle_firstPattern)
  next
    case (Some km)
    obtain kind m where km: "km = (kind, m)" by (cases km)
    show ?thesis
      by (cases kind)
         (simp_all add: parseMarketTitle_firstPattern Some km describe_def split: option.split)
  qed
next
  fix kind m
  assume "firstPattern (rm_title raw) = Some (kind, m)"
  then show "length m = (if kind = Between then 4 else 3)"
    by (rule firstPattern_length)
next
  fix kind m
  assume "firstPattern (rm_title raw) = Some (kind, m)"
  then show "isDigits (m ! 1)" using firstPattern_digits by blast
next
  fix kind m
  assume "firstPattern (rm_title raw) = Some (kind, m)" and "kind = Between"
  then show "isDigits (m ! 2)" using firstPattern_digits by blast
qed

text \<open>
  The fields of a descriptor that are copied from the raw market: condition id, title,
  volume and close time as they are, the YES token and price from the first token and
  the NO token and price from the second, the empty string and 0 standing in for a
  token that is missing.
\<close>

lemma parseMarketTitle_copied:
  assumes "parseMarketTitle host raw = Some p"
  shows "pm_conditionId p = rm_conditionId raw" "pm_title p = rm_title raw"
    "pm_volume p = rm_volume raw" "pm_endDateIso p = rm_endDateIso raw"
    "pm_yesTokenId p = (if rm_tokens raw = [] then [] else mt_tokenId (rm_tokens raw ! 0))"
    "pm_yesPrice p = (if rm_tokens raw = [] then Fin 0 else mt_price (rm_tokens raw ! 0))"
    "pm_noTokenId p = (if length (rm_tokens raw) < 2 then [] else mt_tokenId (rm_tokens raw ! 1))"
    "pm_noPrice p = (if length (rm_tokens raw) < 2 then Fin 0 else mt_price (rm_tokens raw ! 1))"
  using assms unfolding parseMarketTitle_firstPattern
  by (auto simp: describe_def buildParsed_def
        split: option.splits bracketType.splits list.splits)

text \<open>
  \<open>matchCity\<close> and \<open>parseDate\<close> against the resolution the specification words. The
  names of \<open>Object.prototype\<close> are no aliases and no month names. Where the normalised
  city is none of them, \<open>matchCity\<close> is the resolution against the alias table; where it
  is one of them, \<open>matchCity\<close> returns the inherited property, a value that is no
  string. The same holds of the month in \<open>parseDate\<close>. After normalisation, which turns
  capitals into small letters, two of the twelve names remain reachable:
  \<open>constructor\<close> and \<open>__proto__\<close>.
\<close>

lemma inherited_not_alias: "k \<in> set OBJECT_PROTOTYPE_KEYS \<Longrightarrow> map_of CITY_ALIASES k = None"
proof -
  have "\<forall>k \<in> set OBJECT_PROTOTYPE_KEYS. map_of CITY_ALIASES k = None" by code_simp
  then show "k \<in> set OBJECT_PROTOTYPE_KEYS \<Longrightarrow> map_of CITY_ALIASES k = None" by blast
qed

lemma inherited_not_month: "k \<in> set OBJECT_PROTOTYPE_KEYS \<Longrightarrow> map_of MONTHS k = None"
proof -
  have "\<forall>k \<in> set OBJECT_PROTOTYPE_KEYS. map_of MONTHS k = None" by code_simp
  then show "k \<in> set OBJECT_PROTOTYPE_KEYS \<Longrightarrow> map_of MONTHS k = None" by blast
qed

lemma alias_slugs_nonempty: "(alias, slug) \<in> set CITY_ALIASES \<Longrightarrow> slug \<noteq> []"
proof -
  have "\<forall>p \<in> set CITY_ALIASES. snd p \<noteq> []" by code_simp
  then show "(alias, slug) \<in> set CITY_ALIASES \<Longrightarrow> slug \<noteq> []" by fastforce
qed

lemma month_numbers_nonempty: "(name, num) \<in> set MONTHS \<Longrightarrow> num \<noteq> []"
proof -
  have "\<forall>p \<in> set MONTHS. snd p \<noteq> []" by code_simp
  then show "(name, num) \<in> set MONTHS \<Longrightarrow> num \<noteq> []" by fastforce
qed

lemma alias_values_nonempty: "map_of CITY_ALIASES k = Some v \<Longrightarrow> v \<noteq> []"
  by (auto dest!: map_of_SomeD alias_slugs_nonempty)

lemma month_values_nonempty: "map_of MONTHS k = Some v \<Longrightarrow> v \<noteq> []"
  by (auto dest!: map_of_SomeD month_numbers_nonempty)

lemma matchCity_own:
  assumes "toLowerCase (trim raw) \<notin> set OBJECT_PROTOTYPE_KEYS"
  shows "matchCity raw = map_option Str (specResolveCity raw)"
proof (cases "map_of CITY_ALIASES (toLowerCase (trim raw))")
  case None
  with assms show ?thesis
    by (simp add: matchCity_def specResolveCity_def objectGet_def Let_def
          split: option.split prod.split)
next
  case (Some v)
  with alias_values_nonempty [OF Some] show ?thesis
    by (simp add: matchCity_def specResolveCity_def objectGet_def Let_def)
qed

lemma matchCity_inherited:
  assumes "toLowerCase (trim raw) \<in> set OBJECT_PROTOTYPE_KEYS"
  shows "matchCity raw = Some (Inherited (toLowerCase (trim raw)))"
  using assms inherited_not_alias [OF assms]
  by (simp add: matchCity_def objectGet_def Let_def)

lemma find_in_set: "find P xs = Some x \<Longrightarrow> x \<in> set xs"
  by (auto simp: find_Some_iff)

lemma matchCity_truthy:
  assumes "matchCity raw = Some v"
  shows "truthy v"
proof (cases "case objectGet CITY_ALIASES (toLowerCase (trim raw)) of
                Some v \<Rightarrow> truthy v | None \<Rightarrow> False")
  case True
  with assms show ?thesis by (auto simp: matchCity_def Let_def split: option.splits)
next
  case False
  with assms obtain key slug where
    "find (\<lambda>(alias, slug). str_includes (toLowerCase (trim raw)) alias \<or>
                              str_includes alias (toLowerCase (trim raw))) CITY_ALIASES
       = Some (key, slug)" and v: "v = Str slug"
    by (auto simp: matchCity_def Let_def split: option.splits)
  then have "(key, slug) \<in> set CITY_ALIASES" by (auto dest: find_in_set)
  with v show ?thesis by (simp add: alias_slugs_nonempty)
qed

lemma parseDate_own:
  assumes "toLowerCase (split (trim raw) ! 0) \<notin> set OBJECT_PROTOTYPE_KEYS"
  shows "parseDate host raw = specParseDate (host_year host) raw"
proof (cases "map_of MONTHS (toLowerCase (split (trim raw) ! 0))")
  case None
  with assms show ?thesis
    by (simp add: parseDate_def specParseDate_def objectGet_def Let_def)
next
  case (Some v)
  with month_values_nonempty [OF Some] show ?thesis
    by (simp add: parseDate_def specParseDate_def objectGet_def Let_def)
qed

lemma parseDate_inherited:
  assumes "toLowerCase (split (trim raw) ! 0) \<in> set OBJECT_PROTOTYPE_KEYS"
    and "2 \<le> length (split (trim raw))" and "filter isDigit (split (trim raw) ! 1) \<noteq> []"
  shows "parseDate host raw =
           Some (toString (host_year host) @ ''-''
                   @ templateText host (Inherited (toLowerCase (split (trim raw) ! 0))) @ ''-''
                   @ padStart2 (filter isDigit (split (trim raw) ! 1)))"
    and "specParseDate (host_year host) raw = None"
  using assms inherited_not_month [OF assms(1)]
  by (simp_all add: parseDate_def specParseDate_def objectGet_def Let_def)

lemma toLowerCaseChar_lower: "toLowerCaseChar (toLowerCaseChar c) = toLowerCaseChar c"
  by (auto simp: toLowerCaseChar_def Let_def)

lemma toLowerCase_lower: "toLowerCase (toLowerCase s) = toLowerCase s"
  by (simp add: toLowerCase_def toLowerCaseChar_lower)

lemma reachable_inherited:
  "toLowerCase s \<in> set OBJECT_PROTOTYPE_KEYS \<longleftrightarrow>
   toLowerCase s = ''constructor'' \<or> toLowerCase s = ''__proto__''"
proof
  assume a: "toLowerCase s \<in> set OBJECT_PROTOTYPE_KEYS"
  have "\<forall>k \<in> set OBJECT_PROTOTYPE_KEYS.
          toLowerCase k = k \<longrightarrow> k = ''constructor'' \<or> k = ''__proto__''"
    by code_simp
  with a toLowerCase_lower [of s] show "toLowerCase s = ''constructor'' \<or> toLowerCase s = ''__proto__''"
    by auto
next
  assume "toLowerCase s = ''constructor'' \<or> toLowerCase s = ''__proto__''"
  then show "toLowerCase s \<in> set OBJECT_PROTOTYPE_KEYS"
    by (auto simp: OBJECT_PROTOTYPE_KEYS_def)
qed

text \<open>
  So the null cases of the parser are those of the specification for every title whose
  normalised city and month are neither \<open>constructor\<close> nor \<open>__proto__\<close>.
\<close>

lemma parseMarketTitle_null:
  assumes "firstPattern (rm_title raw) = Some (kind, m)"
    and "toLowerCase (trim (m ! 0)) \<notin> {''constructor'', ''__proto__''}"
    and "toLowerCase (split (trim (m ! (if kind = Between then 3 else 2))) ! 0)
           \<notin> {''constructor'', ''__proto__''}"
  shows "parseMarketTitle host raw = None \<longleftrightarrow>
           specResolveCity (m ! 0) = None \<or>
           specParseDate (host_year host) (m ! (if kind = Between then 3 else 2)) = None"
proof -
  from assms(2) have c: "matchCity (m ! 0) = map_option Str (specResolveCity (m ! 0))"
    using reachable_inherited [of "trim (m ! 0)"] by (intro matchCity_own) simp
  let ?d = "m ! (if kind = Between then 3 else 2)"
  from assms(3) have d: "parseDate host ?d = specParseDate (host_year host) ?d"
    using reachable_inherited [of "split (trim ?d) ! 0"] by (intro parseDate_own) simp
  from assms(1) c d show ?thesis
    by (cases kind)
       (simp_all add: parseMarketTitle_firstPattern describe_def split: option.split)
qed

lemma firstPattern_t1:
  "firstPattern t1 = Some (Between, [''New York City'', ''32'', ''33'', ''February 16''])"
  by code_simp

lemma firstPattern_t2: "firstPattern t2 = Some (Below, [''Seattle'', ''40'', ''March 5''])"
  by code_simp

lemma firstPattern_t3: "firstPattern t3 = Some (Above, [''Dallas'', ''70'', ''February 17''])"
  by code_simp

lemma firstPattern_t4:
  "firstPattern t4 = Some (Between, [''Tokyo'', ''40'', ''41'', ''February 17''])"
  by code_simp

lemma firstPattern_t5:
  "firstPattern t5 = Some (Between, [''MIAMI'', ''78'', ''79'', ''FEBRUARY 17''])"
  by code_simp

lemma firstPattern_bitcoin: "firstPattern ''Will Bitcoin hit $100K by end of year?'' = None"
  by code_simp

lemma firstPattern_constructor:
  "firstPattern T_CONSTRUCTOR = Some (Between, [''Constructor'', ''40'', ''41'', ''February 17''])"
  by code_simp

lemma firstPattern_proto:
  "firstPattern T_PROTO = Some (Above, [''Dallas'', ''70'', ''__proto__ 17''])"
  by code_simp

lemma matchCity_examples:
  "matchCity ''New York City'' = Some (Str ''nyc'')"
  "matchCity ''Seattle'' = Some (Str ''seattle'')"
  "matchCity ''Dallas'' = Some (Str ''dallas'')" "matchCity ''Tokyo'' = None"
  "matchCity ''MIAMI'' = Some (Str ''miami'')"
  "matchCity ''Constructor'' = Some (Inherited ''constructor'')"
  by code_simp+

lemma parseDate_examples:
  "parseDate HOST_2026 ''February 16'' = Some ''2026-02-16''"
  "parseDate HOST_2026 ''March 5'' = Some ''2026-03-05''"
  "parseDate HOST_2026 ''February 17'' = Some ''2026-02-17''"
  "parseDate HOST_2026 ''FEBRUARY 17'' = Some ''2026-02-17''"
  "parseDate HOST_2026 ''__proto__ 17'' = Some ''2026-[object Object]-17''"
  "parseDate HOST_2026 ''constructor 17'' =
     Some ''2026-function Object() { [native code] }-17''"
  by code_simp+

lemma spec_examples:
  "specResolveCity ''Constructor'' = None" "specResolveCity ''Tokyo'' = None"
  "specResolveCity ''New York City'' = Some ''nyc''"
  "specParseDate 2026 ''__proto__ 17'' = None"
  "specParseDate 2026 ''February 17'' = Some ''2026-02-17''"
  by code_simp+

lemma Number_examples:
  "Number ''32'' = Fin 32" "Number ''33'' = Fin 33" "Number ''40'' = Fin 40" "Number ''70'' = Fin 70"
  "Number ''41'' = Fin 41" "Number ''78'' = Fin 78" "Number ''79'' = Fin 79"
  by code_simp+

lemma decimal_examples:
  "decimal ''32'' = 32" "decimal ''33'' = 33" "decimal ''40'' = 40" "decimal ''70'' = 70"
  "decimal ''78'' = 78" "decimal ''79'' = 79" "decimal ''41'' = 41"
  by code_simp+


lemma rm_title_makeRaw: "rm_title (makeRaw t) = t"
  by (simp add: makeRaw_def)

text \<open>
  The titles of the repository's tests. The title with "between 32-33" and the degree
  sign yields \<open>bracketMin = 32\<close> and \<open>bracketMax = 34\<close>; the unknown city and the title
  that is no temperature market yield null; capital letters match.
\<close>

lemma parseMarketTitle_examples:
  "parseMarketTitle HOST_2026 (makeRaw t1) =
     Some \<lparr>pm_conditionId = ''cond-123'', pm_title = t1, pm_city = Str ''nyc'',
            pm_date = ''2026-02-16'', pm_metric = High, pm_bracketMin = Fin 32,
            pm_bracketMax = Fin 34, pm_bracketType = Between, pm_yesTokenId = ''yes-token'',
            pm_noTokenId = ''no-token'', pm_yesPrice = Fin (1 / 2), pm_noPrice = Fin (1 / 2),
            pm_volume = Fin 10000, pm_endDateIso = ''2026-02-18T00:00:00Z''\<rparr>"
  "parseMarketTitle HOST_2026 (makeRaw t2) =
     Some \<lparr>pm_conditionId = ''cond-123'', pm_title = t2, pm_city = Str ''seattle'',
            pm_date = ''2026-03-05'', pm_metric = High, pm_bracketMin = NInf,
            pm_bracketMax = Fin 41, pm_bracketType = Below, pm_yesTokenId = ''yes-token'',
            pm_noTokenId = ''no-token'', pm_yesPrice = Fin (1 / 2), pm_noPrice = Fin (1 / 2),
            pm_volume = Fin 10000, pm_endDateIso = ''2026-02-18T00:00:00Z''\<rparr>"
  "parseMarketTitle HOST_2026 (makeRaw t3) =
     Some \<lparr>pm_conditionId = ''cond-123'', pm_title = t3, pm_city = Str ''dallas'',
            pm_date = ''2026-02-17'', pm_metric = High, pm_bracketMin = Fin 70,
            pm_bracketMax = PInf, pm_bracketType = Above, pm_yesTokenId = ''yes-token'',
            pm_noTokenId = ''no-token'', pm_yesPrice = Fin (1 / 2), pm_noPrice = Fin (1 / 2),
            pm_volume = Fin 10000, pm_endDateIso = ''2026-02-18T00:00:00Z''\<rparr>"
  "parseMarketTitle HOST_2026 (makeRaw t4) = None"
  "parseMarketTitle HOST_2026 (makeRaw t5) =
     Some \<lparr>pm_conditionId = ''cond-123'', pm_title = t5, pm_city = Str ''miami'',
            pm_date = ''2026-02-17'', pm_metric = High, pm_bracketMin = Fin 78,
            pm_bracketMax = Fin 80, pm_bracketType = Between, pm_yesTokenId = ''yes-token'',
            pm_noTokenId = ''no-token'', pm_yesPrice = Fin (1 / 2), pm_noPrice = Fin (1 / 2),
            pm_volume = Fin 10000, pm_endDateIso = ''2026-02-18T00:00:00Z''\<rparr>"
  "parseMarketTitle HOST_2026 (makeRaw ''Will Bitcoin hit $100K by end of year?'') = None"
  by (simp_all add: parseMarketTitle_firstPattern rm_title_makeRaw firstPattern_t1
        firstPattern_t2 firstPattern_t3 firstPattern_t4 firstPattern_t5 firstPattern_bitcoin
        describe_def matchCity_examples parseDate_examples Number_examples)
     (simp_all add: buildParsed_def makeRaw_def)

text \<open>
  Claim C3. \<open>parseMarketTitle\<close> is to return null for a title whose city cannot be
  resolved against the alias table or whose "Month Day" date is unparsable. It does not
  for the city \<open>Constructor\<close> and for the month \<open>__proto__\<close>: neither is resolved by
  the tables (the resolution as the specification words it gives null), yet the parser
  returns a descriptor for the "between 40-41" title of the test for an unknown city
  with that city, and for the "70 or higher" title with that month. The first
  descriptor has bracket type between, \<open>bracketMin = 40\<close> and \<open>bracketMax = 42\<close>, and for
  its city the function inherited under the key \<open>constructor\<close>, not a string; the second
  has type above, \<open>bracketMin = 70\<close> and \<open>bracketMax = Infinity\<close>, and the date
  \<open>2026-[object Object]-17\<close>. The lookups \<open>CITY_ALIASES[normalized]\<close> and
  \<open>MONTHS[monthStr]\<close> find the properties that the two tables inherit.
\<close>

theorem parseMarketTitle_inherited_key:
  "specResolveCity ''Constructor'' = None \<and>
   parseMarketTitle HOST_2026 (makeRaw T_CONSTRUCTOR) =
     Some \<lparr>pm_conditionId = ''cond-123'', pm_title = T_CONSTRUCTOR,
            pm_city = Inherited ''constructor'',
            pm_date = ''2026-02-17'', pm_metric = High, pm_bracketMin = Fin 40,
            pm_bracketMax = Fin 42, pm_bracketType = Between, pm_yesTokenId = ''yes-token'',
            pm_noTokenId = ''no-token'', pm_yesPrice = Fin (1 / 2), pm_noPrice = Fin (1 / 2),
            pm_volume = Fin 10000, pm_endDateIso = ''2026-02-18T00:00:00Z''\<rparr> \<and>
   specParseDate 2026 ''__proto__ 17'' = None \<and>
   parseMarketTitle HOST_2026 (makeRaw T_PROTO) =
     Some \<lparr>pm_conditionId = ''cond-123'', pm_title = T_PROTO, pm_city = Str ''dallas'',
            pm_date = ''2026-[object Object]-17'', pm_metric = High, pm_bracketMin = Fin 70,
            pm_bracketMax = PInf, pm_bracketType = Above, pm_yesTokenId = ''yes-token'',
            pm_noTokenId = ''no-token'', pm_yesPrice = Fin (1 / 2), pm_noPrice = Fin (1 / 2),
            pm_volume = Fin 10000, pm_endDateIso = ''2026-02-18T00:00:00Z''\<rparr>"
proof -
  have "parseMarketTitle HOST_2026 (makeRaw T_CONSTRUCTOR) =
          Some (buildParsed (makeRaw T_CONSTRUCTOR) (Inherited ''constructor'') ''2026-02-17''
                  High Between (Fin 40) (Fin 42))"
    by (simp add: parseMarketTitle_firstPattern rm_title_makeRaw firstPattern_constructor
          describe_def matchCity_examples parseDate_examples Number_examples)
  moreover have "parseMarketTitle HOST_2026 (makeRaw T_PROTO) =
          Some (buildParsed (makeRaw T_PROTO) (Str ''dallas'') ''2026-[object Object]-17''
                  High Above (Fin 70) PInf)"
    by (simp add: parseMarketTitle_firstPattern rm_title_makeRaw firstPattern_proto
          describe_def matchCity_examples parseDate_examples Number_examples)
  ultimately show ?thesis
    by (simp add: spec_examples buildParsed_def makeRaw_def)
qed

lemma parse_t3:
  "parseMarketTitle HOST_2026 (makeRaw t3) =
     Some (buildParsed (makeRaw t3) (Str ''dallas'') ''2026-02-17'' High Above (Fin 70) PInf)"
  by (simp add: parseMarketTitle_firstPattern rm_title_makeRaw firstPattern_t3 describe_def
        matchCity_examples parseDate_examples Number_examples)

theorem parseMarketTitle_metric_high_witness:
  "parseMarketTitle HOST_2026 (makeRaw t3) =
     Some (buildParsed (makeRaw t3) (Str ''dallas'') ''2026-02-17'' High Above (Fin 70) PInf) \<and>
   pm_metric (buildParsed (makeRaw t3) (Str ''dallas'') ''2026-02-17'' High Above (Fin 70) PInf) = High"
  using parseMarketTitle_metric_high [OF parse_t3] parse_t3 by simp

section \<open>Properties of the consensus engine\<close>

lemma fraction_Fin:
  "n \<noteq> 0 \<Longrightarrow> ndiv (Fin (real k)) (Fin (real n)) = Fin (real k / real n)"
  by simp

lemma calcAboveProbability_Fin: "\<exists>p. calcAboveProbability day m t = Fin p"
  by (simp add: calcAboveProbability_def Let_def)

lemma calcBelowProbability_Fin: "\<exists>p. calcBelowProbability day m t = Fin p"
  by (simp add: calcBelowProbability_def Let_def)

lemma calcBucketProbability_Fin: "\<exists>p. bp_probability (calcBucketProbability day m lo hi) = Fin p"
  by (simp add: calcBucketProbability_def Let_def)

lemma getModelProbability_Fin:
  assumes "getModelProbability e date m bt lo hi = Some v"
  shows "\<exists>p. v = Fin p"
proof -
  from assms obtain day where v:
    "v = (case bt of Above \<Rightarrow> calcAboveProbability day m lo
          | Below \<Rightarrow> calcBelowProbability day m hi
          | Between \<Rightarrow> bp_probability (calcBucketProbability day m lo hi))"
    by (auto simp: getModelProbability_def split: option.splits bracketType.splits)
  show ?thesis
    using calcAboveProbability_Fin [of day m lo] calcBelowProbability_Fin [of day m hi]
      calcBucketProbability_Fin [of day m lo hi]
    by (cases bt) (auto simp: v)
qed

lemma getModelProbability_None:
  "getModelProbability e date m bt lo hi = None \<longleftrightarrow> (\<forall>d \<in> set (ef_daily e). df_date d \<noteq> date)"
proof -
  have "getModelProbability e date m bt lo hi = None \<longleftrightarrow>
          find (\<lambda>d. df_date d = date) (ef_daily e) = None"
    by (cases bt) (simp_all add: getModelProbability_def split: option.split)
  then show ?thesis by (auto simp: find_None_iff)
qed

text \<open>The result of \<open>calculateConsensus\<close> once the primary probability, the secondary
  probability and the tiebreaker are known.\<close>

lemma calculateConsensus_unfold:
  assumes "getModelProbability gfs date m bt lo hi = Some (Fin g)"
    and "ecmwfProbability ecmwf date m bt lo hi = map_option Fin e"
    and "nwsInBracket nws m bt lo hi = tb"
  shows "calculateConsensus gfs ecmwf nws date m bt lo hi =
     Some \<lparr>cr_gfsProbability = Fin g, cr_ecmwfProbability = map_option Fin e,
           cr_nwsHigh = nws,
           cr_consensusProbability =
             Fin (case e of None \<Rightarrow> g | Some x \<Rightarrow> (g * 1.0 + x * 1.2) / (1.0 + 1.2)),
           cr_confidence =
             fst (tierRule (1 + (if e = None then 0 else 1) + (if tb = None then 0 else 1))
               (real (1 + (case e of None \<Rightarrow> 0 | Some x \<Rightarrow> if (x \<ge> 0.5) = (g \<ge> 0.5) then 1 else 0)
                   + (case tb of None \<Rightarrow> 0 | Some b \<Rightarrow> if b = (g \<ge> 0.5) then 1 else (0::nat)))
                / real (1 + (if e = None then 0 else 1) + (if tb = None then 0 else (1::nat))))),
           cr_modelsAgreeing =
             1 + (case e of None \<Rightarrow> 0 | Some x \<Rightarrow> if (x \<ge> 0.5) = (g \<ge> 0.5) then 1 else 0)
               + (case tb of None \<Rightarrow> 0 | Some b \<Rightarrow> if b = (g \<ge> 0.5) then 1 else 0),
           cr_kellyMultiplier =
             snd (tierRule (1 + (if e = None then 0 else 1) + (if tb = None then 0 else 1))
               (real (1 + (case e of None \<Rightarrow> 0 | Some x \<Rightarrow> if (x \<ge> 0.5) = (g \<ge> 0.5) then 1 else 0)
                   + (case tb of None \<Rightarrow> 0 | Some b \<Rightarrow> if b = (g \<ge> 0.5) then 1 else (0::nat)))
                / real (1 + (if e = None then 0 else 1) + (if tb = None then 0 else (1::nat)))))\<rparr>"
proof -
  have ec: "(case ecmwf of None \<Rightarrow> None | Some e \<Rightarrow> getModelProbability e date m bt lo hi)
              = map_option Fin e"
    using assms(2) by (simp add: ecmwfProbability_def)
  show ?thesis
  proof (cases e)
    case None
    show ?thesis
    proof (cases tb)
      case None
      with \<open>e = None\<close> show ?thesis
        by (simp add: calculateConsensus_def assms(1,3) ec Let_def nge_def neq_def tierRule_def)
    next
      case (Some b)
      with \<open>e = None\<close> show ?thesis
        by (simp add: calculateConsensus_def assms(1,3) ec Let_def nge_def neq_def tierRule_def)
    qed
  next
    case (Some x)
    show ?thesis
    proof (cases tb)
      case None
      with \<open>e = Some x\<close> show ?thesis
        by (simp add: calculateConsensus_def assms(1,3) ec Let_def nge_def neq_def tierRule_def)
    next
      case (Some b)
      with \<open>e = Some x\<close> show ?thesis
        by (simp add: calculateConsensus_def assms(1,3) ec Let_def nge_def neq_def tierRule_def)
    qed
  qed
qed


lemma consensus_inputs_finite:
  "(\<forall>v. getModelProbability gfs date m bt lo hi = Some v \<longrightarrow> (\<exists>g. v = Fin g)) \<and>
   (\<exists>e. ecmwfProbability ecmwf date m bt lo hi = map_option Fin e)"
proof
  show "\<forall>v. getModelProbability gfs date m bt lo hi = Some v \<longrightarrow> (\<exists>g. v = Fin g)"
    using getModelProbability_Fin by blast
  show "\<exists>e. ecmwfProbability ecmwf date m bt lo hi = map_option Fin e"
  proof (cases "ecmwfProbability ecmwf date m bt lo hi")
    case None
    then have "ecmwfProbability ecmwf date m bt lo hi = map_option Fin None" by simp
    then show ?thesis by blast
  next
    case (Some v)
    then obtain e where "getModelProbability e date m bt lo hi = Some v"
      by (auto simp: ecmwfProbability_def split: option.splits)
    then obtain x where "v = Fin x" using getModelProbability_Fin by blast
    with Some have "ecmwfProbability ecmwf date m bt lo hi = map_option Fin (Some x)" by simp
    then show ?thesis by blast
  qed
qed

text \<open>
  Claim C4. \<open>calculateConsensus\<close> returns null if and only if the primary (GFS)
  probability is unavailable, that is, the primary forecast has no entry for the requested
  date. Every result it returns carries the tier and Kelly multiplier of the first rule
  that matches, in this order: at least 2 models consulted and agreement ratio 1 give
  LOCK and 1.5; at least 2 models and ratio at least 0.66 give STRONG and 1.2; exactly 1
  model gives SAFE and 1.0; ratio at least 0.5 gives NEAR-SAFE and 0.7; otherwise SKIP and
  0. The ratio is \<open>modelsAgreeing\<close> over the number of models consulted.
\<close>

theorem calculateConsensus_tier:
  "(calculateConsensus gfs ecmwf nws date m bt lo hi = None \<longleftrightarrow>
      getModelProbability gfs date m bt lo hi = None) \<and>
   (getModelProbability gfs date m bt lo hi = None \<longleftrightarrow>
      (\<forall>d \<in> set (ef_daily gfs). df_date d \<noteq> date)) \<and>
   (\<forall>r. calculateConsensus gfs ecmwf nws date m bt lo hi = Some r \<longrightarrow>
      (cr_confidence r, cr_kellyMultiplier r) =
        tierRule (modelsConsulted ecmwf nws date m bt lo hi)
          (real (cr_modelsAgreeing r) / real (modelsConsulted ecmwf nws date m bt lo hi)))"
proof (intro conjI allI impI)
  show "calculateConsensus gfs ecmwf nws date m bt lo hi = None \<longleftrightarrow>
      getModelProbability gfs date m bt lo hi = None"
    by (simp add: calculateConsensus_def Let_def split: option.split)
  show "getModelProbability gfs date m bt lo hi = None \<longleftrightarrow>
      (\<forall>d \<in> set (ef_daily gfs). df_date d \<noteq> date)"
    by (rule getModelProbability_None)
next
  fix r
  assume r: "calculateConsensus gfs ecmwf nws date m bt lo hi = Some r"
  then obtain v where "getModelProbability gfs date m bt lo hi = Some v"
    by (cases "getModelProbability gfs date m bt lo hi") (simp_all add: calculateConsensus_def)
  then obtain g where g: "getModelProbability gfs date m bt lo hi = Some (Fin g)"
    using getModelProbability_Fin by blast
  obtain e where e: "ecmwfProbability ecmwf date m bt lo hi = map_option Fin e"
    using consensus_inputs_finite by blast
  have n: "modelsConsulted ecmwf nws date m bt lo hi =
      1 + (if e = None then 0 else 1) + (if nwsInBracket nws m bt lo hi = None then 0 else 1)"
    by (simp add: modelsConsulted_def e)
  from r show "(cr_confidence r, cr_kellyMultiplier r) =
        tierRule (modelsConsulted ecmwf nws date m bt lo hi)
          (real (cr_modelsAgreeing r) / real (modelsConsulted ecmwf nws date m bt lo hi))"
    unfolding calculateConsensus_unfold [OF g e refl] n by auto
qed

text \<open>
  Claim C5. With primary probability \<open>g\<close> and secondary probability \<open>x\<close> (when
  available), the blended probability is \<open>(1.0 g + 1.2 x) / (1.0 + 1.2)\<close>, and \<open>g\<close>
  alone when no secondary probability is available; the point forecast does not occur in
  it. The agreement count is 1 for the primary, plus 1 when the secondary's vote
  (\<open>x \<ge> 0.5\<close>) equals the primary's (\<open>g \<ge> 0.5\<close>), plus 1 when a tiebreaker is formed
  from the point forecast and equals the primary's vote. The tiebreaker is
  \<open>nwsInBracket\<close>: it exists when a point forecast is supplied and the metric is high.
  Every probability \<open>getModelProbability\<close> returns is a finite number, so the two
  hypotheses only name the values (lemma \<open>consensus_inputs_finite\<close>).
\<close>

theorem calculateConsensus_blend:
  assumes "getModelProbability gfs date m bt lo hi = Some (Fin g)"
    and "ecmwfProbability ecmwf date m bt lo hi = map_option Fin e"
  shows "map_option cr_consensusProbability (calculateConsensus gfs ecmwf nws date m bt lo hi) =
           Some (Fin (case e of None \<Rightarrow> g | Some x \<Rightarrow> (1.0 * g + 1.2 * x) / (1.0 + 1.2))) \<and>
         map_option cr_modelsAgreeing (calculateConsensus gfs ecmwf nws date m bt lo hi) =
           Some (1 + (case e of None \<Rightarrow> 0 | Some x \<Rightarrow> if (x \<ge> 0.5) = (g \<ge> 0.5) then 1 else 0)
                   + (case nwsInBracket nws m bt lo hi of
                        None \<Rightarrow> 0
                      | Some b \<Rightarrow> if b = (g \<ge> 0.5) then 1 else 0))"
  unfolding calculateConsensus_unfold [OF assms refl]
  by (cases e) simp_all

lemma HIGHS_unfold:
  "HIGHS = [42,42,42,42,42,42,42,42,42,42, 43,43,43,43,43,43,43,43,43,43,
            41,41,41,41,41, 44,44,44,44,44,44]"
  by (simp add: HIGHS_def numeral_eq_Suc)

lemma ENSEMBLE_probability:
  "getModelProbability ENSEMBLE ''2026-02-17'' High Between (Fin 42) (Fin 44) = Some (Fin (20 / 31))"
  by (simp add: getModelProbability_def ENSEMBLE_def calcBucketProbability_def HIGHS_unfold nge_def)

lemma ENSEMBLE_no_date:
  "getModelProbability ENSEMBLE ''2099-01-01'' High Between (Fin 42) (Fin 44) = None"
  by (simp add: getModelProbability_def ENSEMBLE_def)

lemma ECMWF_ENSEMBLE_probability:
  "ecmwfProbability (Some ECMWF_ENSEMBLE) ''2026-02-17'' High Between (Fin 42) (Fin 44)
     = map_option Fin (Some (1 / 2))"
  by (simp add: ecmwfProbability_def getModelProbability_def ECMWF_ENSEMBLE_def
        calcBucketProbability_def nge_def)

lemma nwsInBracket_50: "nwsInBracket (Some (Fin 50)) High Between (Fin 42) (Fin 44) = Some False"
  by (simp add: nwsInBracket_def nge_def)

lemma consensus_three_models:
  "calculateConsensus ENSEMBLE (Some ECMWF_ENSEMBLE) (Some (Fin 50)) ''2026-02-17'' High Between
     (Fin 42) (Fin 44) =
   Some \<lparr>cr_gfsProbability = Fin (20 / 31), cr_ecmwfProbability = Some (Fin (1 / 2)),
         cr_nwsHigh = Some (Fin 50), cr_consensusProbability = Fin (193 / 341),
         cr_confidence = STRONG, cr_modelsAgreeing = 2, cr_kellyMultiplier = Fin 1.2\<rparr>"
  unfolding calculateConsensus_unfold [OF ENSEMBLE_probability ECMWF_ENSEMBLE_probability nwsInBracket_50]
  by (simp add: tierRule_def)


lemma ecmwfProbability_absent:
  "ecmwfProbability None ''2026-02-17'' High Between (Fin 42) (Fin 44) = map_option Fin None"
  by (simp add: ecmwfProbability_def)

lemma consensus_two_models:
  "calculateConsensus ENSEMBLE (Some ECMWF_ENSEMBLE) None ''2026-02-17'' High Between
     (Fin 42) (Fin 44) =
   Some \<lparr>cr_gfsProbability = Fin (20 / 31), cr_ecmwfProbability = Some (Fin (1 / 2)),
         cr_nwsHigh = None, cr_consensusProbability = Fin (193 / 341),
         cr_confidence = LOCK, cr_modelsAgreeing = 2, cr_kellyMultiplier = Fin 1.5\<rparr>"
proof -
  have tb: "nwsInBracket None High Between (Fin 42) (Fin 44) = None"
    by (simp add: nwsInBracket_def)
  show ?thesis
    unfolding calculateConsensus_unfold [OF ENSEMBLE_probability ECMWF_ENSEMBLE_probability tb]
    by (simp add: tierRule_def)
qed

theorem calculateConsensus_tier_witness:
  "calculateConsensus ENSEMBLE (Some ECMWF_ENSEMBLE) (Some (Fin 50)) ''2026-02-17'' High Between
     (Fin 42) (Fin 44) =
   Some \<lparr>cr_gfsProbability = Fin (20 / 31), cr_ecmwfProbability = Some (Fin (1 / 2)),
         cr_nwsHigh = Some (Fin 50), cr_consensusProbability = Fin (193 / 341),
         cr_confidence = STRONG, cr_modelsAgreeing = 2, cr_kellyMultiplier = Fin 1.2\<rparr> \<and>
   modelsConsulted (Some ECMWF_ENSEMBLE) (Some (Fin 50)) ''2026-02-17'' High Between
     (Fin 42) (Fin 44) = 3 \<and>
   tierRule 3 (2 / 3) = (STRONG, Fin 1.2) \<and>
   calculateConsensus ENSEMBLE (Some ECMWF_ENSEMBLE) None ''2026-02-17'' High Between
     (Fin 42) (Fin 44) =
   Some \<lparr>cr_gfsProbability = Fin (20 / 31), cr_ecmwfProbability = Some (Fin (1 / 2)),
         cr_nwsHigh = None, cr_consensusProbability = Fin (193 / 341),
         cr_confidence = LOCK, cr_modelsAgreeing = 2, cr_kellyMultiplier = Fin 1.5\<rparr> \<and>
   tierRule 2 1 = (LOCK, Fin 1.5) \<and>
   getModelProbability ENSEMBLE ''2099-01-01'' High Between (Fin 42) (Fin 44) = None \<and>
   calculateConsensus ENSEMBLE (Some ECMWF_ENSEMBLE) (Some (Fin 50)) ''2099-01-01'' High Between
     (Fin 42) (Fin 44) = None"
proof -
  have n3: "modelsConsulted (Some ECMWF_ENSEMBLE) (Some (Fin 50)) ''2026-02-17'' High Between
     (Fin 42) (Fin 44) = 3"
    by (simp add: modelsConsulted_def ECMWF_ENSEMBLE_probability nwsInBracket_50)
  have t3: "tierRule 3 (2 / 3) = (STRONG, Fin 1.2)" and t2: "tierRule 2 1 = (LOCK, Fin 1.5)"
    by (simp_all add: tierRule_def)
  show ?thesis
    using calculateConsensus_tier [of ENSEMBLE "Some ECMWF_ENSEMBLE" "Some (Fin 50)"
            "''2026-02-17''" High Between "Fin 42" "Fin 44"]
          calculateConsensus_tier [of ENSEMBLE "Some ECMWF_ENSEMBLE" "Some (Fin 50)"
            "''2099-01-01''" High Between "Fin 42" "Fin 44"]
          consensus_three_models consensus_two_models ENSEMBLE_no_date n3 t3 t2
    by simp
qed

theorem calculateConsensus_blend_witness:
  "getModelProbability ENSEMBLE ''2026-02-17'' High Between (Fin 42) (Fin 44)
     = Some (Fin (20 / 31)) \<and>
   ecmwfProbability (Some ECMWF_ENSEMBLE) ''2026-02-17'' High Between (Fin 42) (Fin 44)
     = map_option Fin (Some (1 / 2)) \<and>
   map_option cr_consensusProbability
     (calculateConsensus ENSEMBLE (Some ECMWF_ENSEMBLE) (Some (Fin 50)) ''2026-02-17'' High
        Between (Fin 42) (Fin 44)) = Some (Fin (193 / 341)) \<and>
   map_option cr_modelsAgreeing
     (calculateConsensus ENSEMBLE (Some ECMWF_ENSEMBLE) (Some (Fin 50)) ''2026-02-17'' High
        Between (Fin 42) (Fin 44)) = Some 2 \<and>
   map_option cr_consensusProbability
     (calculateConsensus ENSEMBLE None (Some (Fin 43)) ''2026-02-17'' High
        Between (Fin 42) (Fin 44)) = Some (Fin (20 / 31)) \<and>
   map_option cr_modelsAgreeing
     (calculateConsensus ENSEMBLE None (Some (Fin 43)) ''2026-02-17'' High
        Between (Fin 42) (Fin 44)) = Some 2"
  using calculateConsensus_blend [OF ENSEMBLE_probability ECMWF_ENSEMBLE_probability,
          of "Some (Fin 50)"]
        calculateConsensus_blend [OF ENSEMBLE_probability ecmwfProbability_absent,
          of "Some (Fin 43)"]
        ENSEMBLE_probability ECMWF_ENSEMBLE_probability
  by (simp add: nwsInBracket_def nge_def numeral_2_eq_2)

section \<open>Properties of the edge calculation and the position sizer\<close>

lemma chooseSide_Fin:
  "chooseSide (Fin p) (Fin yesPrice) (Fin noPrice) =
     (if p - yesPrice \<ge> (1 - p) - noPrice \<and> p - yesPrice > 0 then
        Some (YES, Fin (p - yesPrice), Fin p, Fin yesPrice)
      else if (1 - p) - noPrice > 0 then
        Some (NO, Fin ((1 - p) - noPrice), Fin (1 - p), Fin noPrice)
      else None)"
  by (simp add: chooseSide_def Let_def nsub_def nge_def ngt_def)

text \<open>
  Claim C6. For every probability \<open>p\<close> and pair of prices, with
  \<open>yesEdge = p - yesPrice\<close> and \<open>noEdge = (1 - p) - noPrice\<close>: the edge calculation
  returns side YES with probability \<open>p\<close>, price \<open>yesPrice\<close> and edge \<open>yesEdge\<close>
  exactly when \<open>yesEdge \<ge> noEdge\<close> and \<open>yesEdge > 0\<close>; otherwise side NO with
  probability \<open>1 - p\<close>, price \<open>noPrice\<close> and edge \<open>noEdge\<close> exactly when
  \<open>noEdge > 0\<close>; otherwise null. A tie \<open>yesEdge = noEdge > 0\<close> yields YES. This holds
  of \<open>calculateEdge\<close> and of the selection written inline in \<open>generateSignals\<close>.
\<close>

theorem calculateEdge_side:
  assumes "getModelProbability ensemble (pm_date market) (pm_metric market)
             (pm_bracketType market) (pm_bracketMin market) (pm_bracketMax market) = Some (Fin p)"
    and "pm_yesPrice market = Fin yesPrice" and "pm_noPrice market = Fin noPrice"
  shows "calculateEdge market ensemble =
           (if p - yesPrice \<ge> (1 - p) - noPrice \<and> p - yesPrice > 0 then
              Some \<lparr>er_market = market, er_modelProbability = Fin p,
                    er_marketPrice = Fin yesPrice, er_edge = Fin (p - yesPrice),
                    er_side = YES, er_effectivePrice = Fin yesPrice\<rparr>
            else if (1 - p) - noPrice > 0 then
              Some \<lparr>er_market = market, er_modelProbability = Fin (1 - p),
                    er_marketPrice = Fin noPrice, er_edge = Fin ((1 - p) - noPrice),
                    er_side = NO, er_effectivePrice = Fin noPrice\<rparr>
            else None) \<and>
         chooseSide (Fin p) (Fin yesPrice) (Fin noPrice) =
           (if p - yesPrice \<ge> (1 - p) - noPrice \<and> p - yesPrice > 0 then
              Some (YES, Fin (p - yesPrice), Fin p, Fin yesPrice)
            else if (1 - p) - noPrice > 0 then
              Some (NO, Fin ((1 - p) - noPrice), Fin (1 - p), Fin noPrice)
            else None)"
  using assms
  by (simp add: calculateEdge_def chooseSide_Fin Let_def nsub_def nge_def ngt_def)

lemma makeMarket_fields:
  "pm_date (makeMarket y n) = ''2026-02-17''" "pm_metric (makeMarket y n) = High"
  "pm_bracketType (makeMarket y n) = Between" "pm_bracketMin (makeMarket y n) = Fin 42"
  "pm_bracketMax (makeMarket y n) = Fin 44" "pm_yesPrice (makeMarket y n) = y"
  "pm_noPrice (makeMarket y n) = n"
  by (simp_all add: makeMarket_def)

theorem calculateEdge_side_witness:
  "getModelProbability ENSEMBLE (pm_date (makeMarket (Fin 0.9) (Fin 0.1)))
     (pm_metric (makeMarket (Fin 0.9) (Fin 0.1))) (pm_bracketType (makeMarket (Fin 0.9) (Fin 0.1)))
     (pm_bracketMin (makeMarket (Fin 0.9) (Fin 0.1))) (pm_bracketMax (makeMarket (Fin 0.9) (Fin 0.1)))
     = Some (Fin (20 / 31)) \<and>
   calculateEdge (makeMarket (Fin 0.9) (Fin 0.1)) ENSEMBLE =
     Some \<lparr>er_market = makeMarket (Fin 0.9) (Fin 0.1), er_modelProbability = Fin (11 / 31),
           er_marketPrice = Fin 0.1, er_edge = Fin (79 / 310), er_side = NO,
           er_effectivePrice = Fin 0.1\<rparr> \<and>
   calculateEdge (makeMarket (Fin 0.14) (Fin 0.86)) ENSEMBLE =
     Some \<lparr>er_market = makeMarket (Fin 0.14) (Fin 0.86), er_modelProbability = Fin (20 / 31),
           er_marketPrice = Fin 0.14, er_edge = Fin (783 / 1550), er_side = YES,
           er_effectivePrice = Fin 0.14\<rparr> \<and>
   calculateEdge (makeMarket (Fin (20 / 31)) (Fin (11 / 31))) ENSEMBLE = None \<and>
   chooseSide (Fin (20 / 31)) (Fin (169 / 310)) (Fin (79 / 310)) =
     Some (YES, Fin (1 / 10), Fin (20 / 31), Fin (169 / 310))"
proof -
  have p: "\<And>y n. getModelProbability ENSEMBLE (pm_date (makeMarket y n))
     (pm_metric (makeMarket y n)) (pm_bracketType (makeMarket y n))
     (pm_bracketMin (makeMarket y n)) (pm_bracketMax (makeMarket y n)) = Some (Fin (20 / 31))"
    by (simp add: makeMarket_fields ENSEMBLE_probability)
  have y: "\<And>y n. pm_yesPrice (makeMarket (Fin y) (Fin n)) = Fin y"
    and n: "\<And>y n. pm_noPrice (makeMarket (Fin y) (Fin n)) = Fin n"
    by (simp_all add: makeMarket_fields)
  show ?thesis
    using calculateEdge_side [OF p y n, of "0.9" "0.1"]
          calculateEdge_side [OF p y n, of "0.14" "0.86"]
          calculateEdge_side [OF p y n, of "20 / 31" "11 / 31"]
          calculateEdge_side [OF p y n, of "169 / 310" "79 / 310"] p
    by simp
qed

text \<open>
  For every price other than 0, \<open>kellySize\<close> on real arguments is the formula of the
  specification: size 0 when the odds \<open>b\<close> or the raw Kelly fraction are not positive,
  otherwise the capped fraction of the bankroll rounded down to cents and floored at 0;
  price 1 gives size 0, and so does bankroll 0.
\<close>

lemma number_Fin_ops:
  "nsub (Fin a) (Fin b) = Fin (a - b)"
  "nmin (Fin a) (Fin b) = Fin (min a b)"
  "nmax (Fin a) (Fin b) = Fin (max a b)"
  by (simp_all add: nsub_def nmin_def nmax_def min_def max_def)

lemma kellySize_odds:
  assumes "ndiv (nsub (Fin 1) (Fin price)) (Fin price) = Fin b"
  shows "ks_size (kellySize (Fin p) (Fin price) (Fin bankroll)
            (config\<lparr>cfg_kellyFraction := Fin kf, cfg_maxPositionPct := Fin cap\<rparr>)) =
     (if b \<le> 0 \<or> (b * p - (1 - p)) / b \<le> 0 then Fin 0
      else Fin (max (of_int \<lfloor>min ((b * p - (1 - p)) / b * kf) cap * bankroll * 100\<rfloor> / 100) 0))"
proof (cases "b \<le> 0")
  case True
  then show ?thesis unfolding kellySize_def Let_def assms by simp
next
  case False
  then have b0: "b \<noteq> 0" by simp
  define rk where "rk = (b * p - (1 - p)) / b"
  have raw: "ndiv (nsub (nmul (Fin b) (Fin p)) (nsub (Fin 1) (Fin p))) (Fin b) = Fin rk"
    using b0 by (simp add: number_Fin_ops rk_def)
  show ?thesis
    unfolding kellySize_def Let_def assms raw rk_def [symmetric]
    using False by (simp add: number_Fin_ops)
qed

lemma kellySize_Fin:
  assumes "price \<noteq> 0"
  shows "ks_size (kellySize (Fin p) (Fin price) (Fin bankroll)
            (config\<lparr>cfg_kellyFraction := Fin kf, cfg_maxPositionPct := Fin cap\<rparr>)) =
     (let b = (1 - price) / price; rawKelly = (b * p - (1 - p)) / b in
      if b \<le> 0 \<or> rawKelly \<le> 0 then Fin 0
      else Fin (max (of_int \<lfloor>min (rawKelly * kf) cap * bankroll * 100\<rfloor> / 100) 0))"
proof -
  have "ndiv (nsub (Fin 1) (Fin price)) (Fin price) = Fin ((1 - price) / price)"
    using assms by (simp add: number_Fin_ops)
  from kellySize_odds [OF this] show ?thesis unfolding Let_def .
qed

lemma kellySize_price_one:
  "ks_size (kellySize p (Fin 1) bankroll config) = Fin 0"
  by (simp add: kellySize_def Let_def number_Fin_ops)

lemma kellySize_bankroll_zero:
  assumes "price \<noteq> 0"
  shows "ks_size (kellySize (Fin p) (Fin price) (Fin 0)
            (config\<lparr>cfg_kellyFraction := Fin kf, cfg_maxPositionPct := Fin cap\<rparr>)) = Fin 0"
  unfolding kellySize_Fin [OF assms] Let_def by simp

lemma NaN_absorbs:
  "nmul NaN x = NaN" "nmin NaN x = NaN" "nmax NaN x = NaN" "ndiv NaN x = NaN"
  "nfloor NaN = NaN" "nle NaN x = False"
  by (simp_all add: nmin_def nmax_def)

lemma rawKelly_zero_price:
  "ndiv (nsub (nmul (ndiv (nsub (Fin 1) (Fin 0)) (Fin 0)) (Fin p)) (nsub (Fin 1) (Fin p)))
        (ndiv (nsub (Fin 1) (Fin 0)) (Fin 0)) = NaN"
proof -
  consider "p < 0" | "p = 0" | "p > 0" by linarith
  then show ?thesis by cases (simp_all add: nsub_def)
qed

text \<open>
  Claim C7. \<open>kellySize\<close> returns size 0 whenever the odds \<open>b = (1 - price) / price\<close>
  or the raw Kelly fraction are not positive, and otherwise the capped fraction of the
  bankroll rounded down to cents; price 1 gives size 0 and bankroll 0 gives size 0, for
  every probability and price. At price 0 the code does otherwise: the odds are
  \<open>Infinity\<close>, which passes the guard \<open>b \<le> 0\<close>; the raw Kelly fraction is \<open>NaN\<close>,
  which passes the guard \<open>rawKelly \<le> 0\<close>; and the size is \<open>NaN\<close>, whatever the
  probability, the bankroll and the configuration.
\<close>

theorem kellySize_zero_price:
  "ks_size (kellySize (Fin p) (Fin 0) bankroll config) = NaN"
proof -
  have b: "\<not> nle (ndiv (nsub (Fin 1) (Fin 0)) (Fin 0)) (Fin 0)" by (simp add: nsub_def)
  show ?thesis
    unfolding kellySize_def Let_def rawKelly_zero_price
    using b by (simp add: NaN_absorbs)
qed

lemma kellySize_zero_price_example:
  "kellySize (Fin 0.6) (Fin 0) (Fin 0) DEFAULT_CONFIG =
     \<lparr>ks_rawKelly = NaN, ks_adjustedKelly = NaN, ks_size = NaN\<rparr>"
  by (simp add: kellySize_def Let_def nsub_def nmin_def nmax_def DEFAULT_CONFIG_def)

section \<open>Properties of the signal generator\<close>

lemma chooseSide_cases:
  assumes "chooseSide q yesPrice noPrice = Some (side, edge, prob, price)"
  shows "prob = (case side of YES \<Rightarrow> q | NO \<Rightarrow> nsub (Fin 1) q) \<and>
         price = (case side of YES \<Rightarrow> yesPrice | NO \<Rightarrow> noPrice) \<and>
         edge = nsub prob price"
  using assms by (auto simp: chooseSide_def Let_def split: if_splits)

lemma eligible_consensus:
  assumes "eligible env gfs config ops ecmwf market = Some (consensus, side, edge, prob, price)"
  shows "(case gfs (pm_city market) of
            None \<Rightarrow> False
          | Some g \<Rightarrow>
              calculateConsensus g
                (case ecmwf of None \<Rightarrow> None | Some es \<Rightarrow> es (pm_city market)) None
                (pm_date market) (pm_metric market) (pm_bracketType market)
                (pm_bracketMin market) (pm_bracketMax market) = Some consensus) \<and>
         cr_confidence consensus \<noteq> SKIP \<and>
         chooseSide (cr_consensusProbability consensus) (pm_yesPrice market) (pm_noPrice market)
           = Some (side, edge, prob, price)"
proof -
  from assms obtain g where g: "gfs (pm_city market) = Some g"
    by (cases "gfs (pm_city market)") (simp_all add: eligible_def Let_def split: if_splits)
  let ?c = "calculateConsensus g
                (case ecmwf of None \<Rightarrow> None | Some es \<Rightarrow> es (pm_city market)) None
                (pm_date market) (pm_metric market) (pm_bracketType market)
                (pm_bracketMin market) (pm_bracketMax market)"
  from assms g obtain c where c: "?c = Some c"
    by (cases ?c) (simp_all add: eligible_def Let_def split: if_splits)
  from assms g c have skip: "cr_confidence c \<noteq> SKIP"
    by (auto simp: eligible_def Let_def split: if_splits)
  let ?s = "chooseSide (cr_consensusProbability c) (pm_yesPrice market) (pm_noPrice market)"
  from assms g c skip obtain t where t: "?s = Some t"
    by (cases ?s) (simp_all add: eligible_def Let_def split: if_splits)
  from assms g c skip t have "c = consensus \<and> t = (side, edge, prob, price)"
    by (cases t) (simp add: eligible_def Let_def split: if_splits)
  with g c skip t show ?thesis by simp
qed

text \<open>
  Claim C8, amended. For every market that survives the filters of \<open>generateSignals\<close>
  and the minimum-edge threshold, the base size is computed by \<open>kellySize\<close> from the
  chosen side's probability (the blended consensus probability when the side is YES, one
  minus it when the side is NO) and the chosen side's price; it is multiplied by the
  consensus tier's Kelly multiplier, capped at \<open>bankroll * maxPositionPct\<close> and rounded
  down to cents; the signal carries that size, and no signal is emitted when the size is
  below 0.50.
\<close>

theorem signalFor_size:
  assumes "eligible env gfs config ops ecmwf market = Some (consensus, side, edge, prob, price)"
  shows "(case gfs (pm_city market) of
            None \<Rightarrow> False
          | Some g \<Rightarrow>
              calculateConsensus g
                (case ecmwf of None \<Rightarrow> None | Some es \<Rightarrow> es (pm_city market)) None
                (pm_date market) (pm_metric market) (pm_bracketType market)
                (pm_bracketMin market) (pm_bracketMax market) = Some consensus) \<and>
         prob = (case side of YES \<Rightarrow> cr_consensusProbability consensus
                 | NO \<Rightarrow> nsub (Fin 1) (cr_consensusProbability consensus)) \<and>
         price = (case side of YES \<Rightarrow> pm_yesPrice market | NO \<Rightarrow> pm_noPrice market) \<and>
         map_option sg_size (signalFor env gfs config ops ecmwf drawn market) =
           (if nlt (sizeFrom prob price (cr_kellyMultiplier consensus) config) (Fin 0.50) then None
            else Some (sizeFrom prob price (cr_kellyMultiplier consensus) config))"
proof -
  note e = eligible_consensus [OF assms]
  from e have cs: "chooseSide (cr_consensusProbability consensus) (pm_yesPrice market)
      (pm_noPrice market) = Some (side, edge, prob, price)" by simp
  have size: "map_option sg_size (signalFor env gfs config ops ecmwf drawn market) =
           (if nlt (sizeFrom prob price (cr_kellyMultiplier consensus) config) (Fin 0.50) then None
            else Some (sizeFrom prob price (cr_kellyMultiplier consensus) config))"
    by (simp add: signalFor_def assms Let_def sizeFrom_def)
  from e chooseSide_cases [OF cs] size show ?thesis by simp
qed


lemma NO_MARKET_fields:
  "pm_conditionId NO_MARKET = ''cond-1''" "pm_city NO_MARKET = Str ''nyc''"
  "pm_date NO_MARKET = ''2026-02-17''" "pm_metric NO_MARKET = High"
  "pm_bracketType NO_MARKET = Between" "pm_bracketMin NO_MARKET = Fin 44"
  "pm_bracketMax NO_MARKET = Fin 45" "pm_yesPrice NO_MARKET = Fin (1 / 2)"
  "pm_noPrice NO_MARKET = Fin (1 / 2)" "pm_volume NO_MARKET = Fin 5000"
  "pm_endDateIso NO_MARKET = ''2026-02-18T00:00:00Z''"
  by (simp_all add: NO_MARKET_def makeMarket_def)

lemma NO_MARKET_probability:
  "getModelProbability ENSEMBLE ''2026-02-17'' High Between (Fin 44) (Fin 45) = Some (Fin (6 / 31))"
  by (simp add: getModelProbability_def ENSEMBLE_def calcBucketProbability_def HIGHS_unfold nge_def)

lemma NO_MARKET_consensus:
  "calculateConsensus ENSEMBLE None None ''2026-02-17'' High Between (Fin 44) (Fin 45)
     = Some NO_CONSENSUS"
  by (simp add: calculateConsensus_def NO_MARKET_probability nwsInBracket_def Let_def nge_def
        neq_def NO_CONSENSUS_def)

lemma NO_MARKET_side:
  "chooseSide (Fin (6 / 31)) (Fin (1 / 2)) (Fin (1 / 2)) = Some (NO, Fin (19 / 62), Fin (25 / 31), Fin (1 / 2))"
  by (simp add: chooseSide_def Let_def number_Fin_ops nge_def ngt_def)

lemma testEnv_fields:
  "env_now (testEnv u) = Fin 1771200000000" "env_randomUUID (testEnv u) = u"
  "env_getTime (testEnv u) ''2026-02-18T00:00:00Z'' = Fin 1771372800000"
  "env_getTime (testEnv u) ''2026-02-17'' = Fin 1771286400000"
  by (simp_all add: testEnv_def)

lemma NO_MARKET_eligible:
  "eligible (testEnv u) GFS_MAP DEFAULT_CONFIG [] None NO_MARKET =
     Some (NO_CONSENSUS, NO, Fin (19 / 62), Fin (25 / 31), Fin (1 / 2))"
proof -
  have c: "cr_confidence NO_CONSENSUS = SAFE" "cr_consensusProbability NO_CONSENSUS = Fin (6 / 31)"
    by (simp_all add: NO_CONSENSUS_def)
  show ?thesis
    by (simp add: eligible_def Let_def NO_MARKET_fields testEnv_fields GFS_MAP_def
          MIN_VOLUME_def MIN_HOURS_TO_SETTLE_def number_Fin_ops ngt_def
          NO_MARKET_consensus c NO_MARKET_side DEFAULT_CONFIG_def)
qed

lemma NO_MARKET_sizes:
  "kellySize (Fin (25 / 31)) (Fin (1 / 2)) (Fin 100) DEFAULT_CONFIG =
     \<lparr>ks_rawKelly = Fin (19 / 31), ks_adjustedKelly = Fin 0.05, ks_size = Fin 5\<rparr>"
  "ks_size (kellySize (Fin (6 / 31)) (Fin (1 / 2)) (Fin 100) DEFAULT_CONFIG) = Fin 0"
  by (simp_all add: kellySize_def Let_def number_Fin_ops DEFAULT_CONFIG_def)

lemma NO_MARKET_sizeFrom:
  "sizeFrom (Fin (25 / 31)) (Fin (1 / 2)) (Fin 1) DEFAULT_CONFIG = Fin 5"
  "sizeFrom (Fin (6 / 31)) (Fin (1 / 2)) (Fin 1) DEFAULT_CONFIG = Fin 0"
proof -
  have cfg: "cfg_bankrollUsdc DEFAULT_CONFIG = Fin 100" "cfg_maxPositionPct DEFAULT_CONFIG = Fin 0.05"
    by (simp_all add: DEFAULT_CONFIG_def)
  show "sizeFrom (Fin (25 / 31)) (Fin (1 / 2)) (Fin 1) DEFAULT_CONFIG = Fin 5"
    by (simp add: sizeFrom_def cfg NO_MARKET_sizes number_Fin_ops)
  show "sizeFrom (Fin (6 / 31)) (Fin (1 / 2)) (Fin 1) DEFAULT_CONFIG = Fin 0"
    by (simp add: sizeFrom_def cfg NO_MARKET_sizes number_Fin_ops)
qed

lemma NO_MARKET_signal:
  "signalFor (testEnv u) GFS_MAP DEFAULT_CONFIG [] None k NO_MARKET = Some (NO_SIGNAL\<lparr>sg_id := u k\<rparr>)"
proof -
  have cfg: "cfg_bankrollUsdc DEFAULT_CONFIG = Fin 100" "cfg_maxPositionPct DEFAULT_CONFIG = Fin 0.05"
    by (simp_all add: DEFAULT_CONFIG_def)
  have c: "cr_confidence NO_CONSENSUS = SAFE" "cr_kellyMultiplier NO_CONSENSUS = Fin 1"
    by (simp_all add: NO_CONSENSUS_def)
  show ?thesis
    by (simp add: signalFor_def NO_MARKET_eligible Let_def cfg c NO_MARKET_sizes number_Fin_ops
          testEnv_fields getConfidence_def nge_def NO_SIGNAL_def)
qed

lemma NO_MARKET_generate:
  "generateSignals (testEnv u) [NO_MARKET] GFS_MAP DEFAULT_CONFIG [] None = [NO_SIGNAL\<lparr>sg_id := u 0\<rparr>]"
  by (simp add: generateSignals_def NO_MARKET_signal)


lemma kellySize_zero_price_record:
  "kellySize (Fin (20 / 31)) (Fin 0) (Fin 100) DEFAULT_CONFIG =
     \<lparr>ks_rawKelly = NaN, ks_adjustedKelly = NaN, ks_size = NaN\<rparr>"
  by (simp add: kellySize_def Let_def nsub_def nmin_def nmax_def DEFAULT_CONFIG_def)

text \<open>
  A market whose YES price is 0 (the price \<open>buildParsed\<close> gives a market without tokens)
  passes every check of the generator and is emitted with size \<open>NaN\<close>.
\<close>

lemma zero_price_signal:
  "generateSignals (testEnv UUIDS_A) [makeMarket (Fin 0) (Fin 1)] GFS_MAP DEFAULT_CONFIG [] None =
     [\<lparr>sg_id = UUIDS_A 0, sg_market = makeMarket (Fin 0) (Fin 1),
       sg_modelProbability = Fin (20 / 31), sg_marketPrice = Fin 0, sg_edge = Fin (20 / 31),
       sg_side = YES, sg_size = NaN, sg_kelly = NaN, sg_confidence = LOCK,
       sg_createdAt = Fin 1771200000000\<rparr>]"
proof -
  let ?c = "\<lparr>cr_gfsProbability = Fin (20 / 31), cr_ecmwfProbability = None, cr_nwsHigh = None,
      cr_consensusProbability = Fin (20 / 31), cr_confidence = SAFE, cr_modelsAgreeing = 1,
      cr_kellyMultiplier = Fin 1\<rparr>"
  have c: "calculateConsensus ENSEMBLE None None ''2026-02-17'' High Between (Fin 42) (Fin 44)
     = Some ?c"
    by (simp add: calculateConsensus_def ENSEMBLE_probability nwsInBracket_def Let_def nge_def
          neq_def)
  have s: "chooseSide (Fin (20 / 31)) (Fin 0) (Fin 1) = Some (YES, Fin (20 / 31), Fin (20 / 31), Fin 0)"
    by (simp add: chooseSide_def Let_def number_Fin_ops nge_def ngt_def)
  have e: "eligible (testEnv UUIDS_A) GFS_MAP DEFAULT_CONFIG [] None (makeMarket (Fin 0) (Fin 1)) =
     Some (?c, YES, Fin (20 / 31), Fin (20 / 31), Fin 0)"
    by (simp add: eligible_def Let_def makeMarket_def testEnv_fields GFS_MAP_def
          MIN_VOLUME_def MIN_HOURS_TO_SETTLE_def number_Fin_ops ngt_def c s DEFAULT_CONFIG_def)
  have cfg: "cfg_bankrollUsdc DEFAULT_CONFIG = Fin 100" "cfg_maxPositionPct DEFAULT_CONFIG = Fin 0.05"
    by (simp_all add: DEFAULT_CONFIG_def)
  have "signalFor (testEnv UUIDS_A) GFS_MAP DEFAULT_CONFIG [] None 0 (makeMarket (Fin 0) (Fin 1)) =
     Some \<lparr>sg_id = UUIDS_A 0, sg_market = makeMarket (Fin 0) (Fin 1),
       sg_modelProbability = Fin (20 / 31), sg_marketPrice = Fin 0, sg_edge = Fin (20 / 31),
       sg_side = YES, sg_size = NaN, sg_kelly = NaN, sg_confidence = LOCK,
       sg_createdAt = Fin 1771200000000\<rparr>"
    by (simp add: signalFor_def e Let_def cfg kellySize_zero_price_record NaN_absorbs
          testEnv_fields getConfidence_def nge_def)
  then show ?thesis by (simp add: generateSignals_def)
qed

lemma NO_MARKET_eligible_small:
  "eligible (testEnv u) GFS_MAP SMALL_CONFIG [] None NO_MARKET =
     Some (NO_CONSENSUS, NO, Fin (19 / 62), Fin (25 / 31), Fin (1 / 2))"
proof -
  have c: "cr_confidence NO_CONSENSUS = SAFE" "cr_consensusProbability NO_CONSENSUS = Fin (6 / 31)"
    by (simp_all add: NO_CONSENSUS_def)
  show ?thesis
    by (simp add: eligible_def Let_def NO_MARKET_fields testEnv_fields GFS_MAP_def
          MIN_VOLUME_def MIN_HOURS_TO_SETTLE_def number_Fin_ops ngt_def
          NO_MARKET_consensus c NO_MARKET_side DEFAULT_CONFIG_def SMALL_CONFIG_def)
qed

lemma NO_MARKET_sizeFrom_small:
  "sizeFrom (Fin (25 / 31)) (Fin (1 / 2)) (Fin 1) SMALL_CONFIG = Fin (1 / 4)"
  by (simp add: sizeFrom_def kellySize_def Let_def number_Fin_ops DEFAULT_CONFIG_def
        SMALL_CONFIG_def)

theorem signalFor_size_witness:
  "eligible (testEnv UUIDS_A) GFS_MAP DEFAULT_CONFIG [] None NO_MARKET =
     Some (NO_CONSENSUS, NO, Fin (19 / 62), Fin (25 / 31), Fin (1 / 2)) \<and>
   cr_consensusProbability NO_CONSENSUS = Fin (6 / 31) \<and>
   sizeFrom (Fin (25 / 31)) (Fin (1 / 2)) (cr_kellyMultiplier NO_CONSENSUS) DEFAULT_CONFIG = Fin 5 \<and>
   map_option sg_size (signalFor (testEnv UUIDS_A) GFS_MAP DEFAULT_CONFIG [] None 0 NO_MARKET)
     = Some (Fin 5) \<and>
   eligible (testEnv UUIDS_A) GFS_MAP SMALL_CONFIG [] None NO_MARKET =
     Some (NO_CONSENSUS, NO, Fin (19 / 62), Fin (25 / 31), Fin (1 / 2)) \<and>
   sizeFrom (Fin (25 / 31)) (Fin (1 / 2)) (cr_kellyMultiplier NO_CONSENSUS) SMALL_CONFIG
     = Fin (1 / 4) \<and>
   signalFor (testEnv UUIDS_A) GFS_MAP SMALL_CONFIG [] None 0 NO_MARKET = None"
proof -
  have c: "cr_consensusProbability NO_CONSENSUS = Fin (6 / 31)"
    "cr_kellyMultiplier NO_CONSENSUS = Fin 1"
    by (simp_all add: NO_CONSENSUS_def)
  note emitted = signalFor_size [OF NO_MARKET_eligible, of UUIDS_A 0,
      THEN conjunct2, THEN conjunct2, THEN conjunct2]
  note dropped = signalFor_size [OF NO_MARKET_eligible_small, of UUIDS_A 0,
      THEN conjunct2, THEN conjunct2, THEN conjunct2]
  have 1: "map_option sg_size
      (signalFor (testEnv UUIDS_A) GFS_MAP DEFAULT_CONFIG [] None 0 NO_MARKET) = Some (Fin 5)"
    using emitted by (simp add: c NO_MARKET_sizeFrom)
  have "map_option sg_size
      (signalFor (testEnv UUIDS_A) GFS_MAP SMALL_CONFIG [] None 0 NO_MARKET) = None"
    using dropped by (simp add: c NO_MARKET_sizeFrom_small)
  then have 2: "signalFor (testEnv UUIDS_A) GFS_MAP SMALL_CONFIG [] None 0 NO_MARKET = None"
    by simp
  show ?thesis
    by (simp add: NO_MARKET_eligible NO_MARKET_eligible_small c NO_MARKET_sizeFrom
          NO_MARKET_sizeFrom_small 1 2)
qed

text \<open>
  The claim as stated sizes from the blended probability itself. On the NO side that is
  not what the generator does: for the market below it emits a signal of size 5, where
  the blended probability 6/31 at the NO price would give size 0.
\<close>

theorem signal_size_blended_counterexample:
  "generateSignals (testEnv UUIDS_A) [NO_MARKET] GFS_MAP DEFAULT_CONFIG [] None
     = [NO_SIGNAL\<lparr>sg_id := UUIDS_A 0\<rparr>] \<and>
   calculateConsensus ENSEMBLE None None (pm_date NO_MARKET) (pm_metric NO_MARKET)
     (pm_bracketType NO_MARKET) (pm_bracketMin NO_MARKET) (pm_bracketMax NO_MARKET)
     = Some NO_CONSENSUS \<and>
   sg_side NO_SIGNAL = NO \<and>
   sg_size (NO_SIGNAL\<lparr>sg_id := UUIDS_A 0\<rparr>) = Fin 5 \<and>
   sizeFrom (cr_consensusProbability NO_CONSENSUS) (pm_noPrice NO_MARKET)
     (cr_kellyMultiplier NO_CONSENSUS) DEFAULT_CONFIG = Fin 0 \<and>
   sg_size (NO_SIGNAL\<lparr>sg_id := UUIDS_A 0\<rparr>) \<noteq>
     sizeFrom (cr_consensusProbability NO_CONSENSUS) (pm_noPrice NO_MARKET)
       (cr_kellyMultiplier NO_CONSENSUS) DEFAULT_CONFIG"
proof -
  have c: "cr_consensusProbability NO_CONSENSUS = Fin (6 / 31)"
    "cr_kellyMultiplier NO_CONSENSUS = Fin 1"
    by (simp_all add: NO_CONSENSUS_def)
  have s: "sg_side NO_SIGNAL = NO" "sg_size (NO_SIGNAL\<lparr>sg_id := UUIDS_A 0\<rparr>) = Fin 5"
    by (simp_all add: NO_SIGNAL_def)
  show ?thesis
    by (simp add: NO_MARKET_generate NO_MARKET_fields NO_MARKET_consensus c s NO_MARKET_sizeFrom)
qed

lemma eligible_env:
  assumes "env_now env1 = env_now env2" and "env_getTime env1 = env_getTime env2"
  shows "eligible env1 gfs config ops ecmwf market = eligible env2 gfs config ops ecmwf market"
  unfolding eligible_def assms ..

lemma signalFor_env:
  assumes "env_now env1 = env_now env2" and "env_getTime env1 = env_getTime env2"
  shows "map_option withoutId (signalFor env1 gfs config ops ecmwf k1 market) =
         map_option withoutId (signalFor env2 gfs config ops ecmwf k2 market)"
proof (cases "eligible env2 gfs config ops ecmwf market")
  case None
  then show ?thesis by (simp add: signalFor_def eligible_env [OF assms])
next
  case (Some t)
  obtain c side edge prob price where t: "t = (c, side, edge, prob, price)" by (cases t)
  show ?thesis
    by (simp add: signalFor_def eligible_env [OF assms] Some t Let_def withoutId_def assms(1))
qed

lemma signalFor_id:
  "signalFor env gfs config ops ecmwf k market = Some sg \<Longrightarrow> sg_id sg = env_randomUUID env k"
  by (auto simp: signalFor_def Let_def split: option.splits prod.splits if_splits)

lemma signalLoop_env:
  assumes "env_now env1 = env_now env2" and "env_getTime env1 = env_getTime env2"
  shows "map withoutId acc1 = map withoutId acc2 \<Longrightarrow>
         map withoutId (signalLoop env1 gfs config ops ecmwf markets acc1) =
         map withoutId (signalLoop env2 gfs config ops ecmwf markets acc2)"
proof (induction markets arbitrary: acc1 acc2)
  case Nil
  then show ?case by simp
next
  case (Cons market rest)
  let ?a = "signalFor env1 gfs config ops ecmwf (length acc1) market"
  let ?b = "signalFor env2 gfs config ops ecmwf (length acc2) market"
  have ab: "map_option withoutId ?a = map_option withoutId ?b"
    by (rule signalFor_env [OF assms])
  show ?case
  proof (cases ?a)
    case None
    with ab have "?b = None" by simp
    with None Cons show ?thesis by simp
  next
    case (Some x)
    with ab obtain y where y: "?b = Some y" "withoutId x = withoutId y" by (cases ?b) auto
    from Cons.prems y(2) have "map withoutId (acc1 @ [x]) = map withoutId (acc2 @ [y])" by simp
    from Cons.IH [OF this] Some y(1) show ?thesis by simp
  qed
qed

lemma signalLoop_ids:
  "map sg_id acc = map (env_randomUUID env) [0..<length acc] \<Longrightarrow>
   map sg_id (signalLoop env gfs config ops ecmwf markets acc) =
   map (env_randomUUID env) [0..<length (signalLoop env gfs config ops ecmwf markets acc)]"
proof (induction markets arbitrary: acc)
  case Nil
  then show ?case by simp
next
  case (Cons market rest)
  show ?case
  proof (cases "signalFor env gfs config ops ecmwf (length acc) market")
    case None
    with Cons show ?thesis by simp
  next
    case (Some x)
    from signalFor_id [OF Some] Cons.prems
    have "map sg_id (acc @ [x]) = map (env_randomUUID env) [0..<length (acc @ [x])]" by simp
    from Cons.IH [OF this] Some show ?thesis by simp
  qed
qed

text \<open>
  Claim C9, amended. \<open>generateSignals\<close> reads the clock once and draws one random UUID
  for each signal it emits (and \<open>parseMarketTitle\<close> reads the current year). Two
  invocations on identical markets, forecasts, open positions and configuration, at the
  same clock reading and with the same date parser, produce Signal lists that agree in
  every field except \<open>id\<close>; the identifiers are the UUIDs drawn, in order.
\<close>

theorem generateSignals_deterministic_up_to_id:
  assumes "env_now env1 = env_now env2" and "env_getTime env1 = env_getTime env2"
  shows "map withoutId (generateSignals env1 markets gfs config ops ecmwf) =
         map withoutId (generateSignals env2 markets gfs config ops ecmwf) \<and>
         map sg_id (generateSignals env1 markets gfs config ops ecmwf) =
         map (env_randomUUID env1)
           [0..<length (generateSignals env1 markets gfs config ops ecmwf)]"
  unfolding generateSignals_def
  using signalLoop_env [OF assms, of "[]" "[]"] signalLoop_ids [of "[]" env1] by simp

theorem generateSignals_deterministic_up_to_id_witness:
  "env_now (testEnv UUIDS_A) = env_now (testEnv UUIDS_B) \<and>
   env_getTime (testEnv UUIDS_A) = env_getTime (testEnv UUIDS_B) \<and>
   generateSignals (testEnv UUIDS_A) [NO_MARKET] GFS_MAP DEFAULT_CONFIG [] None
     = [NO_SIGNAL\<lparr>sg_id := UUIDS_A 0\<rparr>] \<and>
   generateSignals (testEnv UUIDS_B) [NO_MARKET] GFS_MAP DEFAULT_CONFIG [] None
     = [NO_SIGNAL\<lparr>sg_id := UUIDS_B 0\<rparr>] \<and>
   map withoutId (generateSignals (testEnv UUIDS_A) [NO_MARKET] GFS_MAP DEFAULT_CONFIG [] None) =
   map withoutId (generateSignals (testEnv UUIDS_B) [NO_MARKET] GFS_MAP DEFAULT_CONFIG [] None) \<and>
   map sg_id (generateSignals (testEnv UUIDS_A) [NO_MARKET] GFS_MAP DEFAULT_CONFIG [] None) =
   [UUIDS_A 0]"
proof -
  have n: "env_now (testEnv UUIDS_A) = env_now (testEnv UUIDS_B)"
    and g: "env_getTime (testEnv UUIDS_A) = env_getTime (testEnv UUIDS_B)"
    by (simp_all add: testEnv_def)
  show ?thesis
    using generateSignals_deterministic_up_to_id [OF n g, of "[NO_MARKET]" GFS_MAP DEFAULT_CONFIG
            "[]" None] n g
    by (simp add: NO_MARKET_generate testEnv_fields)
qed

lemma LATER_ENV_generate:
  "generateSignals LATER_ENV [NO_MARKET] GFS_MAP DEFAULT_CONFIG [] None = []"
proof -
  have "eligible LATER_ENV GFS_MAP DEFAULT_CONFIG [] None NO_MARKET = None"
    by (simp add: eligible_def Let_def LATER_ENV_def testEnv_def NO_MARKET_fields MIN_VOLUME_def
          MIN_HOURS_TO_SETTLE_def number_Fin_ops)
  then show ?thesis by (simp add: generateSignals_def signalFor_def)
qed

text \<open>
  As stated, with the markets, forecasts, positions and configuration as the only inputs,
  the claim fails: two invocations that draw different UUIDs return different lists, and
  so do two invocations at different clock readings.
\<close>

theorem generateSignals_deterministic_counterexample:
  "generateSignals (testEnv UUIDS_A) [NO_MARKET] GFS_MAP DEFAULT_CONFIG [] None \<noteq>
   generateSignals (testEnv UUIDS_B) [NO_MARKET] GFS_MAP DEFAULT_CONFIG [] None \<and>
   generateSignals (testEnv UUIDS_A) [NO_MARKET] GFS_MAP DEFAULT_CONFIG [] None \<noteq>
   generateSignals LATER_ENV [NO_MARKET] GFS_MAP DEFAULT_CONFIG [] None"
  by (simp add: NO_MARKET_generate LATER_ENV_generate UUIDS_A_def UUIDS_B_def NO_SIGNAL_def)

end
